theory Spec2Isabelle
  imports Main "HOL-Library.Word"
begin

section \<open>Syscall event subscription of the capsule8 sensor (pkg/sensor/syscall.go)\<close>

text \<open>
  A shallow embedding of \<^verbatim>\<open>pkg/sensor/syscall.go\<close>: the three sample decoders,
  \<^verbatim>\<open>containsIDFilter\<close>, \<^verbatim>\<open>rewriteSyscallEventFilter\<close> and
  \<^verbatim>\<open>registerSyscallEvents\<close>. Go pointers that may be nil are \<open>option\<close> values, a Go
  panic (nil dereference, failed type assertion) is the left injection of a sum, and the
  mutable sensor, monitor and subscription are records passed through explicitly.
\<close>

subsection \<open>Panics\<close>

datatype panic =
    NilPointerDereference
  | TypeAssertionFailed string

subsection \<open>The expression messages of the telemetry API\<close>

text \<open>
  \<^verbatim>\<open>api.Expression\<close> is a protobuf message with a \<^verbatim>\<open>Type\<close> tag and a oneof \<^verbatim>\<open>Expr\<close>
  (identifier, value, binary operands, unary operand). Tag and oneof are independent fields of the
  Go struct, so each constructor below carries the tag next to the oneof case it stands for;
  \<open>Expr_unset\<close> is the message whose oneof is nil. The operands of a binary node are pointers.
\<close>

datatype ExpressionType =
    Expression_EXPRESSION_TYPE_UNKNOWN
  | Expression_IDENTIFIER
  | Expression_VALUE
  | Expression_LOGICAL_AND
  | Expression_LOGICAL_OR
  | Expression_EQ
  | Expression_NE
  | Expression_LT
  | Expression_LE
  | Expression_GT
  | Expression_GE
  | Expression_LIKE
  | Expression_IS_NULL
  | Expression_IS_NOT_NULL
  | Expression_BITWISE_AND

datatype Value =
    Value_StringValue string
  | Value_SignedValue "64 word"
  | Value_UnsignedValue "64 word"
  | Value_BoolValue bool

datatype Expression =
    Expr_unset ExpressionType
  | Expr_Identifier ExpressionType string
  | Expr_Value ExpressionType Value
  | Expr_BinaryOp ExpressionType "Expression option" "Expression option"
  | Expr_UnaryOp ExpressionType "Expression option"

text \<open>The generated getters accept a nil receiver and return the zero value of the field.\<close>

fun GetType :: "Expression option \<Rightarrow> ExpressionType" where
  "GetType None = Expression_EXPRESSION_TYPE_UNKNOWN"
| "GetType (Some (Expr_unset t)) = t"
| "GetType (Some (Expr_Identifier t n)) = t"
| "GetType (Some (Expr_Value t v)) = t"
| "GetType (Some (Expr_BinaryOp t l r)) = t"
| "GetType (Some (Expr_UnaryOp t u)) = t"

fun GetIdentifier :: "Expression option \<Rightarrow> string" where
  "GetIdentifier (Some (Expr_Identifier t n)) = n"
| "GetIdentifier e = []"

text \<open>\<^verbatim>\<open>GetBinaryOp\<close> returns nil unless the oneof holds binary operands.\<close>

fun GetBinaryOp :: "Expression option \<Rightarrow> (Expression option \<times> Expression option) option" where
  "GetBinaryOp (Some (Expr_BinaryOp t l r)) = Some (l, r)"
| "GetBinaryOp e = None"

subsection \<open>The constructors of package expression\<close>

text \<open>
  Modelled from the spec: the constructors \<^verbatim>\<open>Identifier\<close>, \<^verbatim>\<open>Value\<close>, \<^verbatim>\<open>Equal\<close>,
  \<^verbatim>\<open>LogicalAnd\<close> and \<^verbatim>\<open>LogicalOr\<close> of package \<^verbatim>\<open>pkg/expression\<close>, which is not among
  the sources. Each builds one node of the matching kind; the two logical connectives treat an
  absent operand as neutral and return the other operand. \<^verbatim>\<open>expression.Value\<close> takes a Go
  value and wraps it by its dynamic type; here the caller passes the wrapped value, an
  \<^verbatim>\<open>int64\<close> as \<open>Value_SignedValue\<close> and a \<^verbatim>\<open>uint64\<close> as \<open>Value_UnsignedValue\<close>.
\<close>

definition Identifier :: "string \<Rightarrow> Expression option" where
  "Identifier name = Some (Expr_Identifier Expression_IDENTIFIER name)"

definition Value :: "Value \<Rightarrow> Expression option" where
  "Value v = Some (Expr_Value Expression_VALUE v)"

definition newBinaryExpr ::
  "ExpressionType \<Rightarrow> Expression option \<Rightarrow> Expression option \<Rightarrow> Expression option" where
  "newBinaryExpr op lhs rhs = Some (Expr_BinaryOp op lhs rhs)"

definition Equal :: "Expression option \<Rightarrow> Expression option \<Rightarrow> Expression option" where
  "Equal lhs rhs = newBinaryExpr Expression_EQ lhs rhs"

definition LogicalAnd :: "Expression option \<Rightarrow> Expression option \<Rightarrow> Expression option" where
  "LogicalAnd lhs rhs =
     (if lhs = None then rhs
      else if rhs = None then lhs
      else newBinaryExpr Expression_LOGICAL_AND lhs rhs)"

definition LogicalOr :: "Expression option \<Rightarrow> Expression option \<Rightarrow> Expression option" where
  "LogicalOr lhs rhs =
     (if lhs = None then rhs
      else if rhs = None then lhs
      else newBinaryExpr Expression_LOGICAL_OR lhs rhs)"

subsection \<open>containsIDFilter\<close>

text \<open>
  The switch on the type tag. In the three binary cases the source dereferences the result of
  \<^verbatim>\<open>GetBinaryOp\<close> without a nil check, so a node tagged AND, OR or EQ whose oneof holds no
  binary operands panics. \<^verbatim>\<open>||\<close> and \<^verbatim>\<open>&&\<close> evaluate the right operand only when the left one
  does not decide.
\<close>

fun containsIDFilter :: "Expression option \<Rightarrow> panic + bool" where
  "containsIDFilter None = Inr False"
| "containsIDFilter (Some (Expr_BinaryOp t lhs rhs)) =
     (if t = Expression_LOGICAL_AND then
        (case containsIDFilter lhs of
           Inl p \<Rightarrow> Inl p
         | Inr True \<Rightarrow> Inr True
         | Inr False \<Rightarrow> containsIDFilter rhs)
      else if t = Expression_LOGICAL_OR then
        (case containsIDFilter lhs of
           Inl p \<Rightarrow> Inl p
         | Inr False \<Rightarrow> Inr False
         | Inr True \<Rightarrow> containsIDFilter rhs)
      else if t = Expression_EQ then
        (if GetType lhs \<noteq> Expression_IDENTIFIER then Inr False
         else if GetIdentifier lhs \<noteq> ''id'' then Inr False
         else Inr True)
      else Inr False)"
| "containsIDFilter (Some e) =
     (if GetType (Some e) = Expression_LOGICAL_AND \<or> GetType (Some e) = Expression_LOGICAL_OR
         \<or> GetType (Some e) = Expression_EQ
      then Inl NilPointerDereference
      else Inr False)"

subsection \<open>rewriteSyscallEventFilter\<close>

text \<open>
  \<^verbatim>\<open>api.SyscallEventFilter\<close>: the direction, the deprecated scalar fields (pointers to wrapped
  \<^verbatim>\<open>int64\<close> and \<^verbatim>\<open>uint64\<close> values, nil when unset) and the filter expression. The fields
  carry the prefix \<open>sef_\<close>, after the variable the source reads them from. The direction is a
  protobuf enum, in Go an \<^verbatim>\<open>int32\<close> that can hold numbers outside the declared names.
\<close>

definition SYSCALL_EVENT_TYPE_UNKNOWN :: int where
  "SYSCALL_EVENT_TYPE_UNKNOWN = 0"

definition SYSCALL_EVENT_TYPE_ENTER :: int where
  "SYSCALL_EVENT_TYPE_ENTER = 1"

definition SYSCALL_EVENT_TYPE_EXIT :: int where
  "SYSCALL_EVENT_TYPE_EXIT = 2"

record SyscallEventFilter =
  sef_Type :: int
  sef_Id :: "64 word option"
  sef_Arg0 :: "64 word option"
  sef_Arg1 :: "64 word option"
  sef_Arg2 :: "64 word option"
  sef_Arg3 :: "64 word option"
  sef_Arg4 :: "64 word option"
  sef_Arg5 :: "64 word option"
  sef_Ret :: "64 word option"
  sef_FilterExpression :: "Expression option"

text \<open>The function mutates the filter in place; the model returns the filter as it is left.\<close>

definition rewriteSyscallEventFilter :: "SyscallEventFilter \<Rightarrow> SyscallEventFilter" where
  "rewriteSyscallEventFilter sef0 =
     (let sef1 =
        (case sef_Id sef0 of
           None \<Rightarrow> sef0
         | Some v \<Rightarrow>
             sef0\<lparr>sef_FilterExpression :=
                    LogicalAnd (Equal (Identifier ''id'') (Value (Value_SignedValue v)))
                      (sef_FilterExpression sef0),
                  sef_Id := None\<rparr>)
      in
      if sef_Type sef1 = SYSCALL_EVENT_TYPE_ENTER then
        (let sef2 =
           (case sef_Arg0 sef1 of
              None \<Rightarrow> sef1
            | Some v \<Rightarrow>
                sef1\<lparr>sef_FilterExpression :=
                       LogicalAnd (Equal (Identifier ''arg0'') (Value (Value_UnsignedValue v)))
                         (sef_FilterExpression sef1),
                     sef_Arg0 := None\<rparr>);
             sef3 =
           (case sef_Arg1 sef2 of
              None \<Rightarrow> sef2
            | Some v \<Rightarrow>
                sef2\<lparr>sef_FilterExpression :=
                       LogicalAnd (Equal (Identifier ''arg1'') (Value (Value_UnsignedValue v)))
                         (sef_FilterExpression sef2),
                     sef_Arg1 := None\<rparr>);
             sef4 =
           (case sef_Arg2 sef3 of
              None \<Rightarrow> sef3
            | Some v \<Rightarrow>
                sef3\<lparr>sef_FilterExpression :=
                       LogicalAnd (Equal (Identifier ''arg2'') (Value (Value_UnsignedValue v)))
                         (sef_FilterExpression sef3),
                     sef_Arg2 := None\<rparr>);
             sef5 =
           (case sef_Arg3 sef4 of
              None \<Rightarrow> sef4
            | Some v \<Rightarrow>
                sef4\<lparr>sef_FilterExpression :=
                       LogicalAnd (Equal (Identifier ''arg3'') (Value (Value_UnsignedValue v)))
                         (sef_FilterExpression sef4),
                     sef_Arg3 := None\<rparr>);
             sef6 =
           (case sef_Arg4 sef5 of
              None \<Rightarrow> sef5
            | Some v \<Rightarrow>
                sef5\<lparr>sef_FilterExpression :=
                       LogicalAnd (Equal (Identifier ''arg4'') (Value (Value_UnsignedValue v)))
                         (sef_FilterExpression sef5),
                     sef_Arg4 := None\<rparr>)
         in
         (case sef_Arg5 sef6 of
            None \<Rightarrow> sef6
          | Some v \<Rightarrow>
              sef6\<lparr>sef_FilterExpression :=
                     LogicalAnd (Equal (Identifier ''arg5'') (Value (Value_UnsignedValue v)))
                       (sef_FilterExpression sef6),
                   sef_Arg5 := None\<rparr>))
      else if sef_Type sef1 = SYSCALL_EVENT_TYPE_EXIT then
        (case sef_Ret sef1 of
           None \<Rightarrow> sef1
         | Some v \<Rightarrow>
             sef1\<lparr>sef_FilterExpression :=
                    LogicalAnd (Equal (Identifier ''ret'') (Value (Value_SignedValue v)))
                      (sef_FilterExpression sef1),
                  sef_Ret := None\<rparr>)
      else sef1)"

subsection \<open>Sample decoders\<close>

text \<open>
  \<^verbatim>\<open>perf.TraceEventSampleData\<close> is \<^verbatim>\<open>map[string]interface{}\<close>: a field name maps to a value
  of some dynamic type. The unchecked type assertion \<^verbatim>\<open>data["id"].(int64)\<close> panics when the
  key is missing (the interface value is nil) or the value has another dynamic type.
\<close>

datatype SampleValue =
    Sample_int64 "64 word"
  | Sample_uint64 "64 word"
  | Sample_int32 "32 word"
  | Sample_uint32 "32 word"
  | Sample_string string
  | Sample_bool bool

type_synonym TraceEventSampleData = "string \<Rightarrow> SampleValue option"

definition assert_int64 :: "SampleValue option \<Rightarrow> panic + 64 word" where
  "assert_int64 v =
     (case v of
        Some (Sample_int64 w) \<Rightarrow> Inr w
      | _ \<Rightarrow> Inl (TypeAssertionFailed ''int64''))"

definition assert_uint64 :: "SampleValue option \<Rightarrow> panic + 64 word" where
  "assert_uint64 v =
     (case v of
        Some (Sample_uint64 w) \<Rightarrow> Inr w
      | _ \<Rightarrow> Inl (TypeAssertionFailed ''uint64''))"

text \<open>
  \<^verbatim>\<open>api.SyscallEvent\<close>; a field the decoder does not set keeps Go's zero value. The fields
  carry the prefix \<open>ev_\<close>. \<^verbatim>\<open>api.TelemetryEvent\<close> is the envelope that
  \<^verbatim>\<open>Sensor.NewEventFromSample\<close> fills (that function is not among the sources, so the envelope
  is a type parameter and the constructor a parameter of the decoders) together with the oneof
  \<^verbatim>\<open>Event\<close>, nil until a decoder sets it.
\<close>

record SyscallEvent =
  ev_Type :: int
  ev_Id :: "64 word"
  ev_Arg0 :: "64 word"
  ev_Arg1 :: "64 word"
  ev_Arg2 :: "64 word"
  ev_Arg3 :: "64 word"
  ev_Arg4 :: "64 word"
  ev_Arg5 :: "64 word"
  ev_Ret :: "64 word"

datatype isTelemetryEvent_Event =
    TelemetryEvent_Syscall SyscallEvent

record 'e TelemetryEvent =
  Envelope :: 'e
  Event :: "isTelemetryEvent_Event option"

text \<open>
  A decoder returns \<^verbatim>\<open>(interface{}, error)\<close>: the event or nil, and the error or nil. The
  operands of the struct literal are evaluated in the order written, so the first failing
  assertion is the panic.
\<close>

definition pbind :: "panic + 'a \<Rightarrow> ('a \<Rightarrow> panic + 'b) \<Rightarrow> panic + 'b" where
  "pbind x f = (case x of Inl p \<Rightarrow> Inl p | Inr a \<Rightarrow> f a)"

definition decodeDummySysEnter ::
  "'s \<Rightarrow> TraceEventSampleData \<Rightarrow> panic + ('e TelemetryEvent option \<times> string option)" where
  "decodeDummySysEnter sample data = Inr (None, None)"

definition decodeSyscallTraceEnter ::
  "('s \<Rightarrow> TraceEventSampleData \<Rightarrow> 'e TelemetryEvent option) \<Rightarrow> 's \<Rightarrow> TraceEventSampleData
     \<Rightarrow> panic + ('e TelemetryEvent option \<times> string option)" where
  "decodeSyscallTraceEnter NewEventFromSample sample data =
     (case NewEventFromSample sample data of
        None \<Rightarrow> Inr (None, None)
      | Some ev \<Rightarrow>
          pbind (assert_int64 (data ''id'')) (\<lambda>id.
          pbind (assert_uint64 (data ''arg0'')) (\<lambda>arg0.
          pbind (assert_uint64 (data ''arg1'')) (\<lambda>arg1.
          pbind (assert_uint64 (data ''arg2'')) (\<lambda>arg2.
          pbind (assert_uint64 (data ''arg3'')) (\<lambda>arg3.
          pbind (assert_uint64 (data ''arg4'')) (\<lambda>arg4.
          pbind (assert_uint64 (data ''arg5'')) (\<lambda>arg5.
            Inr (Some (ev\<lparr>Event := Some (TelemetryEvent_Syscall
                   \<lparr>ev_Type = SYSCALL_EVENT_TYPE_ENTER, ev_Id = id,
                    ev_Arg0 = arg0, ev_Arg1 = arg1, ev_Arg2 = arg2,
                    ev_Arg3 = arg3, ev_Arg4 = arg4, ev_Arg5 = arg5, ev_Ret = 0\<rparr>)\<rparr>),
                 None)))))))))"

definition decodeSysExit ::
  "('s \<Rightarrow> TraceEventSampleData \<Rightarrow> 'e TelemetryEvent option) \<Rightarrow> 's \<Rightarrow> TraceEventSampleData
     \<Rightarrow> panic + ('e TelemetryEvent option \<times> string option)" where
  "decodeSysExit NewEventFromSample sample data =
     (case NewEventFromSample sample data of
        None \<Rightarrow> Inr (None, None)
      | Some ev \<Rightarrow>
          pbind (assert_int64 (data ''id'')) (\<lambda>id.
          pbind (assert_int64 (data ''ret'')) (\<lambda>ret.
            Inr (Some (ev\<lparr>Event := Some (TelemetryEvent_Syscall
                   \<lparr>ev_Type = SYSCALL_EVENT_TYPE_EXIT, ev_Id = id,
                    ev_Arg0 = 0, ev_Arg1 = 0, ev_Arg2 = 0,
                    ev_Arg3 = 0, ev_Arg4 = 0, ev_Arg5 = 0, ev_Ret = ret\<rparr>)\<rparr>),
                 None))))"

subsection \<open>The collaborators of registerSyscallEvents\<close>

text \<open>
  The event monitor, the sensor, the subscription and the kernel are used by
  \<^verbatim>\<open>registerSyscallEvents\<close> and declared elsewhere in the repository. They are modelled at
  their interface: the monitor keeps the events that are registered, hands out fresh event ids and
  records every call made to it; whether a registration succeeds is decided by the machine the
  sensor runs on, which is a parameter (\<open>Kernel\<close>) of the pass. Within one pass every tracepoint
  name, kprobe symbol and field-type map is tried at most once, so a function of the name covers
  every pattern of failures.
\<close>

datatype Code =
    Code_OK
  | Code_CANCELLED
  | Code_UNKNOWN
  | Code_INVALID_ARGUMENT

datatype ValueType =
    ValueTypeString
  | ValueTypeSignedInt64
  | ValueTypeUnsignedInt64
  | ValueTypeBool

type_synonym FieldTypeMap = "(string \<times> ValueType) list"

definition syscallEnterEventTypes :: FieldTypeMap where
  "syscallEnterEventTypes =
     [(''id'', ValueTypeSignedInt64),
      (''arg0'', ValueTypeUnsignedInt64),
      (''arg1'', ValueTypeUnsignedInt64),
      (''arg2'', ValueTypeUnsignedInt64),
      (''arg3'', ValueTypeUnsignedInt64),
      (''arg4'', ValueTypeUnsignedInt64),
      (''arg5'', ValueTypeUnsignedInt64)]"

definition syscallExitEventTypes :: FieldTypeMap where
  "syscallExitEventTypes =
     [(''id'', ValueTypeSignedInt64),
      (''ret'', ValueTypeSignedInt64)]"

datatype Decoder =
    Decoder_decodeDummySysEnter
  | Decoder_decodeSyscallTraceEnter
  | Decoder_decodeSysExit

datatype RegisterEventOption =
    WithEventGroup int
  | WithFilter string

text \<open>A call to the monitor, with what it returned (\<open>Inl\<close> the error, \<open>Inr\<close> the event id).\<close>

datatype MonitorCall =
    Call_RegisterTracepoint string Decoder "RegisterEventOption list" "string + nat"
  | Call_RegisterKprobe string bool string Decoder "RegisterEventOption list" "string + nat"
  | Call_UnregisterEvent nat

record EventMonitor =
  registeredEvents :: "(nat \<times> string) list"
  nextID :: nat
  calls :: "MonitorCall list"

record Kernel =
  KernelVersion :: "int \<times> int \<times> int"
  tracepointError :: "string \<Rightarrow> string option"
  kprobeError :: "string \<Rightarrow> string option"
  eventSinkError :: "Expression option \<Rightarrow> FieldTypeMap \<Rightarrow> string option"

text \<open>
  Modelled from the spec: \<^verbatim>\<open>RegisterTracepoint(name, decoder, options) -> (id, error)\<close>,
  \<^verbatim>\<open>RegisterKprobe(symbol, isReturnProbe, fetchArgsSpec, decoder, options) -> (id, error)\<close> and
  \<^verbatim>\<open>UnregisterEvent(id)\<close> of the event monitor, which is not among the sources. A successful
  registration returns a fresh id and records the event under it; a failed one changes nothing;
  unregistering removes the event with that id, if any. Event ids are \<^verbatim>\<open>uint64\<close> in the
  source; they are only handed on and compared, so they are natural numbers here.
\<close>

definition RegisterTracepoint ::
  "Kernel \<Rightarrow> string \<Rightarrow> Decoder \<Rightarrow> RegisterEventOption list \<Rightarrow> EventMonitor
     \<Rightarrow> (string + nat) \<times> EventMonitor" where
  "RegisterTracepoint k name decoder opts m =
     (case tracepointError k name of
        Some err \<Rightarrow>
          (Inl err, m\<lparr>calls := calls m @ [Call_RegisterTracepoint name decoder opts (Inl err)]\<rparr>)
      | None \<Rightarrow>
          (Inr (nextID m),
           m\<lparr>registeredEvents := registeredEvents m @ [(nextID m, name)],
             nextID := nextID m + 1,
             calls := calls m @ [Call_RegisterTracepoint name decoder opts (Inr (nextID m))]\<rparr>))"

definition RegisterKprobe ::
  "Kernel \<Rightarrow> string \<Rightarrow> bool \<Rightarrow> string \<Rightarrow> Decoder \<Rightarrow> RegisterEventOption list \<Rightarrow> EventMonitor
     \<Rightarrow> (string + nat) \<times> EventMonitor" where
  "RegisterKprobe k address onReturn output decoder opts m =
     (case kprobeError k address of
        Some err \<Rightarrow>
          (Inl err,
           m\<lparr>calls := calls m @
                [Call_RegisterKprobe address onReturn output decoder opts (Inl err)]\<rparr>)
      | None \<Rightarrow>
          (Inr (nextID m),
           m\<lparr>registeredEvents := registeredEvents m @ [(nextID m, address)],
             nextID := nextID m + 1,
             calls := calls m @
                [Call_RegisterKprobe address onReturn output decoder opts (Inr (nextID m))]\<rparr>))"

definition UnregisterEvent :: "nat \<Rightarrow> EventMonitor \<Rightarrow> EventMonitor" where
  "UnregisterEvent eventID m =
     m\<lparr>registeredEvents := filter (\<lambda>e. fst e \<noteq> eventID) (registeredEvents m),
       calls := calls m @ [Call_UnregisterEvent eventID]\<rparr>"

text \<open>
  The sensor: its monitor and the two fields of the shared dummy event, the counter an
  \<^verbatim>\<open>int64\<close> updated with \<^verbatim>\<open>atomic.AddInt64\<close> (a 64-bit word read as two's complement by
  \<open>sint\<close>). Calls are modelled one after the other, each \<^verbatim>\<open>AddInt64\<close> as one step.
\<close>

record Sensor =
  Monitor :: EventMonitor
  dummySyscallEventCount :: "64 word"
  dummySyscallEventID :: nat

text \<open>
  An event sink with its optional teardown hook \<^verbatim>\<open>unregister\<close>, a closure over the sensor,
  and the subscription: its event group, its sinks and the diagnostics logged to the subscriber.
\<close>

record eventSink =
  es_eventID :: nat
  es_filter :: "Expression option"
  es_filterTypes :: FieldTypeMap
  unregister :: "(Sensor \<Rightarrow> Sensor) option"

record subscription =
  eventGroupID :: int
  eventSinks :: "eventSink list"
  status :: "(Code \<times> string) list"

text \<open>
  Modelled from the spec: \<^verbatim>\<open>logStatus(codeKind, message)\<close> and
  \<^verbatim>\<open>addEventSink(eventID, filter, fieldTypeMap) -> (*EventSink, error)\<close> of the subscription, which
  is not among the sources. A diagnostic is appended to the subscriber's list; a sink is added
  unless its creation fails, in which case the subscription is unchanged. A sink is referred to
  through its pointer in the source; here it is found again by its event id.
\<close>

definition logStatus :: "subscription \<Rightarrow> Code \<Rightarrow> string \<Rightarrow> subscription" where
  "logStatus subscr c msg = subscr\<lparr>status := status subscr @ [(c, msg)]\<rparr>"

definition addEventSink ::
  "Kernel \<Rightarrow> subscription \<Rightarrow> nat \<Rightarrow> Expression option \<Rightarrow> FieldTypeMap
     \<Rightarrow> (string + eventSink) \<times> subscription" where
  "addEventSink k subscr eventID filterExpression filterTypes =
     (case eventSinkError k filterExpression filterTypes of
        Some err \<Rightarrow> (Inl err, subscr)
      | None \<Rightarrow>
          (let es = \<lparr>es_eventID = eventID, es_filter = filterExpression,
                     es_filterTypes = filterTypes, unregister = None\<rparr>
           in (Inr es, subscr\<lparr>eventSinks := eventSinks subscr @ [es]\<rparr>)))"

definition set_unregister :: "subscription \<Rightarrow> nat \<Rightarrow> (Sensor \<Rightarrow> Sensor) \<Rightarrow> subscription" where
  "set_unregister subscr eventID hook =
     subscr\<lparr>eventSinks :=
       map (\<lambda>es. if es_eventID es = eventID then es\<lparr>unregister := Some hook\<rparr> else es)
         (eventSinks subscr)\<rparr>"

text \<open>\<^verbatim>\<open>fmt.Sprintf("%d", n)\<close>: the decimal digits of an integer.\<close>

function decimal :: "nat \<Rightarrow> string" where
  "decimal n =
     (if n < 10 then [''0123456789'' ! n]
      else decimal (n div 10) @ [''0123456789'' ! (n mod 10)])"
  by pat_completeness auto
termination
  by (relation "measure (\<lambda>n. n)") auto

declare decimal.simps [simp del]

definition Sprintf_d :: "int \<Rightarrow> string" where
  "Sprintf_d i = (if i < 0 then ''-'' @ decimal (nat (- i)) else decimal (nat i))"

subsection \<open>registerSyscallEvents\<close>

definition syscallNewEnterKprobeAddress :: string where
  "syscallNewEnterKprobeAddress = ''syscall_trace_enter_phase1''"

definition syscallOldEnterKprobeAddress :: string where
  "syscallOldEnterKprobeAddress = ''syscall_trace_enter''"

definition syscallEnterKprobeFetchargs :: string where
  "syscallEnterKprobeFetchargs =
     ''id=+120(%di):s64 '' @ ''arg0=+112(%di):u64 '' @ ''arg1=+104(%di):u64 '' @
     ''arg2=+96(%di):u64 '' @ ''arg3=+56(%di):u64 '' @ ''arg4=+72(%di):u64 '' @
     ''arg5=+64(%di):u64''"

text \<open>
  The loop over the filters (lines 215 to 240), on the state it updates: the two union
  expressions and the subscription. A panic of \<^verbatim>\<open>containsIDFilter\<close> ends the call.
\<close>

fun unionSyscallEventFilters ::
  "SyscallEventFilter list \<Rightarrow> Expression option \<times> Expression option \<times> subscription
     \<Rightarrow> panic + (Expression option \<times> Expression option \<times> subscription)" where
  "unionSyscallEventFilters [] st = Inr st"
| "unionSyscallEventFilters (sef0 # rest) (enterFilter, exitFilter, subscr) =
     (let sef = rewriteSyscallEventFilter sef0 in
      case containsIDFilter (sef_FilterExpression sef) of
        Inl p \<Rightarrow> Inl p
      | Inr False \<Rightarrow>
          unionSyscallEventFilters rest
            (enterFilter, exitFilter,
             logStatus subscr Code_INVALID_ARGUMENT ''Wildcard syscall filter ignored'')
      | Inr True \<Rightarrow>
          if sef_Type sef = SYSCALL_EVENT_TYPE_ENTER then
            unionSyscallEventFilters rest
              (LogicalOr enterFilter (sef_FilterExpression sef), exitFilter, subscr)
          else if sef_Type sef = SYSCALL_EVENT_TYPE_EXIT then
            unionSyscallEventFilters rest
              (enterFilter, LogicalOr exitFilter (sef_FilterExpression sef), subscr)
          else
            unionSyscallEventFilters rest
              (enterFilter, exitFilter,
               logStatus subscr Code_INVALID_ARGUMENT
                 (''SyscallEventType '' @ Sprintf_d (sef_Type sef) @ '' is invalid'')))"

text \<open>
  The dummy syscall event (lines 257 to 293). Below major version 3 it is registered in the
  subscription's event group, with a second name tried when the first fails; from version 3 on
  it is registered once, in group 0, by the pass that takes the counter to 1.
\<close>

definition registerDummySyscallEvent ::
  "Kernel \<Rightarrow> Sensor \<Rightarrow> subscription \<Rightarrow> Sensor \<times> subscription" where
  "registerDummySyscallEvent k sensor subscr =
     (let eventName = ''raw_syscalls/sys_enter'';
          major = fst (KernelVersion k)
      in
      if major < 3 then
        (case RegisterTracepoint k eventName Decoder_decodeDummySysEnter
                [WithEventGroup (eventGroupID subscr), WithFilter ''id == 0x7fffffff'']
                (Monitor sensor) of
           (Inr eventID, m1) \<Rightarrow> (sensor\<lparr>Monitor := m1\<rparr>, subscr)
         | (Inl err1, m1) \<Rightarrow>
             (let eventName = ''syscalls/sys_enter'' in
              case RegisterTracepoint k eventName Decoder_decodeDummySysEnter
                     [WithEventGroup (eventGroupID subscr), WithFilter ''id == 0x7fffffff''] m1 of
                (Inr eventID, m2) \<Rightarrow> (sensor\<lparr>Monitor := m2\<rparr>, subscr)
              | (Inl err, m2) \<Rightarrow>
                  (sensor\<lparr>Monitor := m2\<rparr>,
                   logStatus subscr Code_UNKNOWN
                     (''Could not register dummy syscall event '' @ eventName @ '': '' @ err))))
      else
        (let sensor1 = sensor\<lparr>dummySyscallEventCount := dummySyscallEventCount sensor + 1\<rparr> in
         if dummySyscallEventCount sensor1 = 1 then
           (case RegisterTracepoint k eventName Decoder_decodeDummySysEnter
                   [WithEventGroup 0, WithFilter ''id == 0x7fffffff''] (Monitor sensor1) of
              (Inl err, m1) \<Rightarrow>
                (sensor1\<lparr>Monitor := m1,
                         dummySyscallEventCount := dummySyscallEventCount sensor1 - 1\<rparr>,
                 logStatus subscr Code_UNKNOWN
                   (''Could not register dummy syscall event '' @ eventName @ '': '' @ err))
            | (Inr eventID, m1) \<Rightarrow>
                (sensor1\<lparr>Monitor := m1, dummySyscallEventID := eventID\<rparr>, subscr))
         else (sensor1, subscr)))"

text \<open>
  The teardown hook given to the enter sink from major version 3 on (lines 335 to 340): the
  closure reads the shared event id, decrements the counter and unregisters the shared event
  when the counter is 0 afterwards.
\<close>

definition dummySyscallEventUnregister :: "Sensor \<Rightarrow> Sensor" where
  "dummySyscallEventUnregister sensor =
     (let eventID = dummySyscallEventID sensor;
          sensor1 = sensor\<lparr>dummySyscallEventCount := dummySyscallEventCount sensor - 1\<rparr>
      in
      if dummySyscallEventCount sensor1 = 0
      then sensor1\<lparr>Monitor := UnregisterEvent eventID (Monitor sensor1)\<rparr>
      else sensor1)"

text \<open>The enter kprobe and its sink (lines 302 to 342).\<close>

definition registerSyscallEnterKprobe ::
  "Kernel \<Rightarrow> Expression option \<Rightarrow> Sensor \<Rightarrow> subscription \<Rightarrow> Sensor \<times> subscription" where
  "registerSyscallEnterKprobe k enterFilter sensor subscr =
     (let major = fst (KernelVersion k);
          kprobeSymbol = syscallNewEnterKprobeAddress;
          (r1, m1) = RegisterKprobe k kprobeSymbol False syscallEnterKprobeFetchargs
                       Decoder_decodeSyscallTraceEnter [WithEventGroup (eventGroupID subscr)]
                       (Monitor sensor);
          (kprobeSymbol, r, m) =
             (case r1 of
                Inr eventID \<Rightarrow> (kprobeSymbol, r1, m1)
              | Inl err1 \<Rightarrow>
                  (let kprobeSymbol = syscallOldEnterKprobeAddress;
                       (r2, m2) = RegisterKprobe k kprobeSymbol False syscallEnterKprobeFetchargs
                                    Decoder_decodeSyscallTraceEnter
                                    [WithEventGroup (eventGroupID subscr)] m1
                   in (kprobeSymbol, r2, m2)));
          sensor1 = sensor\<lparr>Monitor := m\<rparr>
      in
      case r of
        Inl err \<Rightarrow>
          (sensor1,
           logStatus subscr Code_UNKNOWN
             (''Could not register syscall enter kprobe '' @ kprobeSymbol @ '': '' @ err))
      | Inr eventID \<Rightarrow>
          (case addEventSink k subscr eventID enterFilter syscallEnterEventTypes of
             (Inl err, subscr1) \<Rightarrow>
               (let subscr2 = logStatus subscr1 Code_UNKNOWN
                      (''Invalid filter expression for syscall enter filter: '' @ err);
                    sensor2 = sensor1\<lparr>Monitor := UnregisterEvent eventID (Monitor sensor1)\<rparr>
                in
                if major \<ge> 3 then
                  (let sensor3 = sensor2\<lparr>dummySyscallEventCount :=
                                            dummySyscallEventCount sensor2 - 1\<rparr>
                   in
                   if dummySyscallEventCount sensor3 = 0
                   then (sensor3\<lparr>Monitor :=
                                   UnregisterEvent (dummySyscallEventID sensor3) (Monitor sensor3)\<rparr>,
                         subscr2)
                   else (sensor3, subscr2))
                else (sensor2, subscr2))
           | (Inr es, subscr1) \<Rightarrow>
               if major \<ge> 3
               then (sensor1, set_unregister subscr1 eventID dummySyscallEventUnregister)
               else (sensor1, subscr1)))"

text \<open>The exit tracepoint and its sink (lines 345 to 370).\<close>

definition registerSyscallExit ::
  "Kernel \<Rightarrow> Expression option \<Rightarrow> Sensor \<Rightarrow> subscription \<Rightarrow> Sensor \<times> subscription" where
  "registerSyscallExit k exitFilter sensor subscr =
     (let eventName = ''raw_syscalls/sys_exit'';
          (r1, m1) = RegisterTracepoint k eventName Decoder_decodeSysExit
                       [WithEventGroup (eventGroupID subscr)] (Monitor sensor);
          (eventName, r, m) =
             (case r1 of
                Inr eventID \<Rightarrow> (eventName, r1, m1)
              | Inl err1 \<Rightarrow>
                  (let eventName = ''syscalls/sys_exit'';
                       (r2, m2) = RegisterTracepoint k eventName Decoder_decodeSysExit
                                    [WithEventGroup (eventGroupID subscr)] m1
                   in (eventName, r2, m2)));
          sensor1 = sensor\<lparr>Monitor := m\<rparr>
      in
      case r of
        Inl err \<Rightarrow>
          (sensor1,
           logStatus subscr Code_UNKNOWN
             (''Could not register tracepoint '' @ eventName @ '': '' @ err))
      | Inr eventID \<Rightarrow>
          (case addEventSink k subscr eventID exitFilter syscallExitEventTypes of
             (Inl err, subscr1) \<Rightarrow>
               (sensor1\<lparr>Monitor := UnregisterEvent eventID (Monitor sensor1)\<rparr>,
                logStatus subscr1 Code_UNKNOWN
                  (''Invalid filter expression for syscall exit filter: '' @ err))
           | (Inr es, subscr1) \<Rightarrow> (sensor1, subscr1)))"

text \<open>
  What follows the loop (lines 242 to 370): the enter direction when its union is present, then
  the exit direction when its union is present.
\<close>

definition registerUnionFilters ::
  "Kernel \<Rightarrow> Expression option \<Rightarrow> Expression option \<Rightarrow> Sensor \<Rightarrow> subscription
     \<Rightarrow> Sensor \<times> subscription" where
  "registerUnionFilters k enterFilter exitFilter sensor subscr =
     (let (sensor1, subscr1) =
        (if enterFilter \<noteq> None
         then (case registerDummySyscallEvent k sensor subscr of
                 (sensor0, subscr0) \<Rightarrow>
                   registerSyscallEnterKprobe k enterFilter sensor0 subscr0)
         else (sensor, subscr))
      in
      if exitFilter \<noteq> None
      then registerSyscallExit k exitFilter sensor1 subscr1
      else (sensor1, subscr1))"

definition registerSyscallEvents ::
  "Kernel \<Rightarrow> Sensor \<Rightarrow> subscription \<Rightarrow> SyscallEventFilter list
     \<Rightarrow> panic + (Sensor \<times> subscription)" where
  "registerSyscallEvents k sensor subscr events =
     (case unionSyscallEventFilters events (None, None, subscr) of
        Inl p \<Rightarrow> Inl p
      | Inr (enterFilter, exitFilter, subscr1) \<Rightarrow>
          Inr (registerUnionFilters k enterFilter exitFilter sensor subscr1))"

subsection \<open>Notions the properties are stated with\<close>

text \<open>
  The expression trees built from AND, OR, EQ, IDENTIFIER and VALUE nodes: every node carries
  the tag of its kind and every binary node has both operands.
\<close>

fun builtExpression :: "Expression \<Rightarrow> bool" where
  "builtExpression (Expr_Identifier t n) = (t = Expression_IDENTIFIER)"
| "builtExpression (Expr_Value t v) = (t = Expression_VALUE)"
| "builtExpression (Expr_BinaryOp t (Some l) (Some r)) =
     ((t = Expression_LOGICAL_AND \<or> t = Expression_LOGICAL_OR \<or> t = Expression_EQ)
      \<and> builtExpression l \<and> builtExpression r)"
| "builtExpression e = False"

text \<open>
  The rewriting of a filter as the specification words it, to be compared with
  \<open>rewriteSyscallEventFilter\<close>: each legacy field that is set becomes an equality node that is
  folded onto the expression by a logical AND, the new constraint on the left and the existing
  tree on the right, and the field is cleared. The syscall id is folded for every direction, the
  six arguments for an enter filter, the return value for an exit filter.
\<close>

definition foldLegacy :: "string \<Rightarrow> Value option \<Rightarrow> Expression option \<Rightarrow> Expression option" where
  "foldLegacy name legacy e =
     (case legacy of
        None \<Rightarrow> e
      | Some v \<Rightarrow> LogicalAnd (Equal (Identifier name) (Value v)) e)"

definition spec_rewriteSyscallEventFilter :: "SyscallEventFilter \<Rightarrow> SyscallEventFilter" where
  "spec_rewriteSyscallEventFilter sef =
     (let e = foldLegacy ''id'' (map_option Value_SignedValue (sef_Id sef))
                (sef_FilterExpression sef)
      in
      if sef_Type sef = SYSCALL_EVENT_TYPE_ENTER then
        sef\<lparr>sef_FilterExpression :=
              foldLegacy ''arg5'' (map_option Value_UnsignedValue (sef_Arg5 sef))
             (foldLegacy ''arg4'' (map_option Value_UnsignedValue (sef_Arg4 sef))
             (foldLegacy ''arg3'' (map_option Value_UnsignedValue (sef_Arg3 sef))
             (foldLegacy ''arg2'' (map_option Value_UnsignedValue (sef_Arg2 sef))
             (foldLegacy ''arg1'' (map_option Value_UnsignedValue (sef_Arg1 sef))
             (foldLegacy ''arg0'' (map_option Value_UnsignedValue (sef_Arg0 sef)) e))))),
            sef_Id := None, sef_Arg0 := None, sef_Arg1 := None, sef_Arg2 := None,
            sef_Arg3 := None, sef_Arg4 := None, sef_Arg5 := None\<rparr>
      else if sef_Type sef = SYSCALL_EVENT_TYPE_EXIT then
        sef\<lparr>sef_FilterExpression :=
              foldLegacy ''ret'' (map_option Value_SignedValue (sef_Ret sef)) e,
            sef_Id := None, sef_Ret := None\<rparr>
      else sef\<lparr>sef_FilterExpression := e, sef_Id := None\<rparr>)"

text \<open>A sample with the fields of the enter kprobe and of the exit tracepoint.\<close>

definition sampleEnterData :: TraceEventSampleData where
  "sampleEnterData =
     [''id'' \<mapsto> Sample_int64 2, ''arg0'' \<mapsto> Sample_uint64 10, ''arg1'' \<mapsto> Sample_uint64 11,
      ''arg2'' \<mapsto> Sample_uint64 12, ''arg3'' \<mapsto> Sample_uint64 13,
      ''arg4'' \<mapsto> Sample_uint64 14, ''arg5'' \<mapsto> Sample_uint64 15,
      ''ret'' \<mapsto> Sample_int64 (- 1)]"

text \<open>
  Modelled from the spec: the evaluation of a filter tree by the expression engine, which is not
  among the sources. The specification fixes the logical connectives only (the union of filters
  is a pure disjunction), so every other node is left to a parameter \<open>cmp\<close>, the comparison of
  the engine. An absent expression matches nothing: a direction whose union is absent gets no
  probe and delivers no sample.
\<close>

fun evaluateExpression :: "(Expression \<Rightarrow> bool) \<Rightarrow> Expression option \<Rightarrow> bool" where
  "evaluateExpression cmp None = False"
| "evaluateExpression cmp (Some (Expr_BinaryOp t lhs rhs)) =
     (if t = Expression_LOGICAL_AND
      then evaluateExpression cmp lhs \<and> evaluateExpression cmp rhs
      else if t = Expression_LOGICAL_OR
      then evaluateExpression cmp lhs \<or> evaluateExpression cmp rhs
      else cmp (Expr_BinaryOp t lhs rhs))"
| "evaluateExpression cmp (Some e) = cmp e"

text \<open>
  Modelled from the spec: the comparison the examples of the specification use, the equality of
  a named field of the sample with a value.
\<close>

fun fieldEquals :: "(string \<Rightarrow> Value option) \<Rightarrow> Expression \<Rightarrow> bool" where
  "fieldEquals sample (Expr_BinaryOp t (Some (Expr_Identifier ti name)) (Some (Expr_Value tv v))) =
     (t = Expression_EQ \<and> sample name = Some v)"
| "fieldEquals sample e = False"

text \<open>
  The filters of one direction that pass the check of \<open>containsIDFilter\<close>, rewritten, in the
  order of the request, and the diagnostics the loop logs for the others.
\<close>

definition validatedFilters :: "int \<Rightarrow> SyscallEventFilter list \<Rightarrow> Expression option list" where
  "validatedFilters direction events =
     map sef_FilterExpression
       (filter (\<lambda>sef. containsIDFilter (sef_FilterExpression sef) = Inr True
                     \<and> sef_Type sef = direction)
          (map rewriteSyscallEventFilter events))"

definition filterDiagnostic :: "SyscallEventFilter \<Rightarrow> (Code \<times> string) list" where
  "filterDiagnostic sef0 =
     (let sef = rewriteSyscallEventFilter sef0 in
      if containsIDFilter (sef_FilterExpression sef) = Inr False
      then [(Code_INVALID_ARGUMENT, ''Wildcard syscall filter ignored'')]
      else if sef_Type sef \<noteq> SYSCALL_EVENT_TYPE_ENTER \<and> sef_Type sef \<noteq> SYSCALL_EVENT_TYPE_EXIT
      then [(Code_INVALID_ARGUMENT,
             ''SyscallEventType '' @ Sprintf_d (sef_Type sef) @ '' is invalid'')]
      else [])"

text \<open>The kprobe registrations in a log of monitor calls: the symbol and the fetch arguments.\<close>

fun kprobeAttempts :: "MonitorCall list \<Rightarrow> (string \<times> string) list" where
  "kprobeAttempts [] = []"
| "kprobeAttempts (Call_RegisterKprobe address onReturn output decoder opts r # cs) =
     (address, output) # kprobeAttempts cs"
| "kprobeAttempts (c # cs) = kprobeAttempts cs"

text \<open>The tracepoint registrations in a log of monitor calls, by name.\<close>

fun tracepointAttempts :: "MonitorCall list \<Rightarrow> string list" where
  "tracepointAttempts [] = []"
| "tracepointAttempts (Call_RegisterTracepoint name decoder opts r # cs) =
     name # tracepointAttempts cs"
| "tracepointAttempts (c # cs) = tracepointAttempts cs"

subsection \<open>Concrete inputs\<close>

text \<open>
  A filter that carries a legacy syscall id only, a filter that constrains arg0 only (a wildcard
  over the syscall id), a machine on which the named tracepoints and symbols are missing and the
  creation of an event sink may fail, a sensor that has registered nothing yet, a sensor with
  one event of another subscription registered, and an empty subscription in event group 7.
\<close>

definition idFilter :: "int \<Rightarrow> 64 word \<Rightarrow> SyscallEventFilter" where
  "idFilter direction n =
     \<lparr>sef_Type = direction, sef_Id = Some n, sef_Arg0 = None, sef_Arg1 = None, sef_Arg2 = None,
      sef_Arg3 = None, sef_Arg4 = None, sef_Arg5 = None, sef_Ret = None,
      sef_FilterExpression = None\<rparr>"

definition wildcardFilter :: SyscallEventFilter where
  "wildcardFilter =
     \<lparr>sef_Type = SYSCALL_EVENT_TYPE_ENTER, sef_Id = None, sef_Arg0 = Some 4, sef_Arg1 = None,
      sef_Arg2 = None, sef_Arg3 = None, sef_Arg4 = None, sef_Arg5 = None, sef_Ret = None,
      sef_FilterExpression = None\<rparr>"

definition machine :: "int \<Rightarrow> string list \<Rightarrow> string list \<Rightarrow> bool \<Rightarrow> Kernel" where
  "machine major missingTracepoints missingSymbols sinkFails =
     \<lparr>KernelVersion = (major, 0, 0),
      tracepointError = (\<lambda>name. if name \<in> set missingTracepoints then Some ''ENOENT'' else None),
      kprobeError = (\<lambda>address. if address \<in> set missingSymbols then Some ''ENOENT'' else None),
      eventSinkError = (\<lambda>e types. if sinkFails then Some ''EINVAL'' else None)\<rparr>"

definition sensor0 :: Sensor where
  "sensor0 =
     \<lparr>Monitor = \<lparr>registeredEvents = [], nextID = 1, calls = []\<rparr>,
      dummySyscallEventCount = 0, dummySyscallEventID = 0\<rparr>"

definition sensorBusy :: Sensor where
  "sensorBusy =
     \<lparr>Monitor = \<lparr>registeredEvents = [(1, ''sched/sched_process_fork'')], nextID = 2,
                 calls = []\<rparr>,
      dummySyscallEventCount = 0, dummySyscallEventID = 0\<rparr>"

definition subscr0 :: subscription where
  "subscr0 = \<lparr>eventGroupID = 7, eventSinks = [], status = []\<rparr>"

section \<open>Properties\<close>

text \<open>The definitions that evaluate a registration on a concrete input.\<close>

lemmas eval_defs =
  registerSyscallEvents_def registerUnionFilters_def registerDummySyscallEvent_def
  registerSyscallEnterKprobe_def registerSyscallExit_def RegisterTracepoint_def RegisterKprobe_def
  UnregisterEvent_def addEventSink_def set_unregister_def logStatus_def
  machine_def sensor0_def subscr0_def idFilter_def wildcardFilter_def
  rewriteSyscallEventFilter_def Let_def
  LogicalAnd_def LogicalOr_def Equal_def Identifier_def Value_def newBinaryExpr_def
  SYSCALL_EVENT_TYPE_ENTER_def SYSCALL_EVENT_TYPE_EXIT_def
  syscallNewEnterKprobeAddress_def syscallOldEnterKprobeAddress_def


subsection \<open>containsIDFilter\<close>

lemma built_no_panic: "builtExpression e \<Longrightarrow> \<exists>b. containsIDFilter (Some e) = Inr b"
  by (induction e rule: builtExpression.induct) (auto split: sum.splits bool.splits)

text \<open>
  C2. On expression trees built from AND, OR, EQ, IDENTIFIER and VALUE nodes
  \<open>containsIDFilter\<close> returns without a panic, and: an equality of an identifier and a value
  holds iff the identifier is named id; an AND node holds iff its left or its right operand
  holds; an OR node holds iff both operands hold; a missing expression and every node of another
  kind give false. With \<open>junk\<close> any expression that does not hold: AND(id==2, junk) is true,
  AND(junk, junk) is false, OR(id==2, junk) is false and OR(id==2, id==3) is true.
\<close>

theorem containsIDFilter_cases:
  assumes "builtExpression l" and "builtExpression r" and "containsIDFilter junk = Inr False"
  shows "containsIDFilter None = Inr False
    \<and> containsIDFilter (Equal (Identifier n) (Value v)) = Inr (n = ''id'')
    \<and> containsIDFilter (newBinaryExpr Expression_LOGICAL_AND (Some l) (Some r))
        = Inr (containsIDFilter (Some l) = Inr True \<or> containsIDFilter (Some r) = Inr True)
    \<and> containsIDFilter (newBinaryExpr Expression_LOGICAL_OR (Some l) (Some r))
        = Inr (containsIDFilter (Some l) = Inr True \<and> containsIDFilter (Some r) = Inr True)
    \<and> containsIDFilter (Identifier n) = Inr False
    \<and> containsIDFilter (Value v) = Inr False
    \<and> (GetType e \<noteq> Expression_LOGICAL_AND \<and> GetType e \<noteq> Expression_LOGICAL_OR
         \<and> GetType e \<noteq> Expression_EQ \<longrightarrow> containsIDFilter e = Inr False)
    \<and> containsIDFilter (newBinaryExpr Expression_LOGICAL_AND
          (Equal (Identifier ''id'') (Value (Value_SignedValue 2))) junk) = Inr True
    \<and> containsIDFilter (newBinaryExpr Expression_LOGICAL_AND junk junk) = Inr False
    \<and> containsIDFilter (newBinaryExpr Expression_LOGICAL_OR
          (Equal (Identifier ''id'') (Value (Value_SignedValue 2))) junk) = Inr False
    \<and> containsIDFilter (newBinaryExpr Expression_LOGICAL_OR
          (Equal (Identifier ''id'') (Value (Value_SignedValue 2)))
          (Equal (Identifier ''id'') (Value (Value_SignedValue 3)))) = Inr True"
proof -
  obtain bl br where lr: "containsIDFilter (Some l) = Inr bl" "containsIDFilter (Some r) = Inr br"
    using built_no_panic [OF assms(1)] built_no_panic [OF assms(2)] by blast
  have other: "GetType e \<noteq> Expression_LOGICAL_AND \<and> GetType e \<noteq> Expression_LOGICAL_OR
         \<and> GetType e \<noteq> Expression_EQ \<longrightarrow> containsIDFilter e = Inr False"
    by (cases e rule: containsIDFilter.cases) auto
  show ?thesis
    using lr assms(3) other
    by (cases bl) (simp_all add: Equal_def Identifier_def Value_def newBinaryExpr_def)
qed

theorem containsIDFilter_cases_witness:
  "containsIDFilter (newBinaryExpr Expression_LOGICAL_AND
      (Equal (Identifier ''arg0'') (Value (Value_UnsignedValue 4)))
      (Equal (Identifier ''id'') (Value (Value_SignedValue 2)))) = Inr True
   \<and> containsIDFilter (newBinaryExpr Expression_LOGICAL_OR
      (Equal (Identifier ''arg0'') (Value (Value_UnsignedValue 4)))
      (Equal (Identifier ''id'') (Value (Value_SignedValue 2)))) = Inr False
   \<and> containsIDFilter (newBinaryExpr Expression_LOGICAL_AND
      (Equal (Identifier ''arg0'') (Value (Value_UnsignedValue 4)))
      (Equal (Identifier ''arg0'') (Value (Value_UnsignedValue 4)))) = Inr False"
  using containsIDFilter_cases
    [of "Expr_BinaryOp Expression_EQ (Identifier ''arg0'') (Value (Value_UnsignedValue 4))"
        "Expr_BinaryOp Expression_EQ (Identifier ''id'') (Value (Value_SignedValue 2))"
        "Equal (Identifier ''arg0'') (Value (Value_UnsignedValue 4))"]
  by (simp add: Equal_def Identifier_def Value_def newBinaryExpr_def)

text \<open>
  C10. On an EQ node \<open>containsIDFilter\<close> looks at the left operand only: the result is true
  exactly when the left operand is tagged IDENTIFIER and named id, whatever the right operand
  is. So the equality of the value 2 with the identifier id, written in that order, is not
  accepted as a constraint on the syscall id, while id == 2 is.
\<close>

theorem containsIDFilter_EQ_inspects_left_operand_only:
  "containsIDFilter (newBinaryExpr Expression_EQ lhs rhs)
     = Inr (GetType lhs = Expression_IDENTIFIER \<and> GetIdentifier lhs = ''id'')
   \<and> containsIDFilter (Equal (Value (Value_SignedValue 2)) (Identifier ''id'')) = Inr False
   \<and> containsIDFilter (Equal (Identifier ''id'') (Value (Value_SignedValue 2))) = Inr True"
  by (simp add: Equal_def Identifier_def Value_def newBinaryExpr_def)

subsection \<open>rewriteSyscallEventFilter\<close>

lemma legacy_steps:
  "(case sef_Id s of None \<Rightarrow> s | Some v \<Rightarrow>
      s\<lparr>sef_FilterExpression := LogicalAnd (Equal (Identifier n) (Value (Value_SignedValue v))) (sef_FilterExpression s), sef_Id := None\<rparr>)
   = s\<lparr>sef_FilterExpression := foldLegacy n (map_option Value_SignedValue (sef_Id s)) (sef_FilterExpression s), sef_Id := None\<rparr>"
  "(case sef_Ret s of None \<Rightarrow> s | Some v \<Rightarrow>
      s\<lparr>sef_FilterExpression := LogicalAnd (Equal (Identifier n) (Value (Value_SignedValue v))) (sef_FilterExpression s), sef_Ret := None\<rparr>)
   = s\<lparr>sef_FilterExpression := foldLegacy n (map_option Value_SignedValue (sef_Ret s)) (sef_FilterExpression s), sef_Ret := None\<rparr>"
  "(case sef_Arg0 s of None \<Rightarrow> s | Some v \<Rightarrow>
      s\<lparr>sef_FilterExpression := LogicalAnd (Equal (Identifier n) (Value (Value_UnsignedValue v))) (sef_FilterExpression s), sef_Arg0 := None\<rparr>)
   = s\<lparr>sef_FilterExpression := foldLegacy n (map_option Value_UnsignedValue (sef_Arg0 s)) (sef_FilterExpression s), sef_Arg0 := None\<rparr>"
  "(case sef_Arg1 s of None \<Rightarrow> s | Some v \<Rightarrow>
      s\<lparr>sef_FilterExpression := LogicalAnd (Equal (Identifier n) (Value (Value_UnsignedValue v))) (sef_FilterExpression s), sef_Arg1 := None\<rparr>)
   = s\<lparr>sef_FilterExpression := foldLegacy n (map_option Value_UnsignedValue (sef_Arg1 s)) (sef_FilterExpression s), sef_Arg1 := None\<rparr>"
  "(case sef_Arg2 s of None \<Rightarrow> s | Some v \<Rightarrow>
      s\<lparr>sef_FilterExpression := LogicalAnd (Equal (Identifier n) (Value (Value_UnsignedValue v))) (sef_FilterExpression s), sef_Arg2 := None\<rparr>)
   = s\<lparr>sef_FilterExpression := foldLegacy n (map_option Value_UnsignedValue (sef_Arg2 s)) (sef_FilterExpression s), sef_Arg2 := None\<rparr>"
  "(case sef_Arg3 s of None \<Rightarrow> s | Some v \<Rightarrow>
      s\<lparr>sef_FilterExpression := LogicalAnd (Equal (Identifier n) (Value (Value_UnsignedValue v))) (sef_FilterExpression s), sef_Arg3 := None\<rparr>)
   = s\<lparr>sef_FilterExpression := foldLegacy n (map_option Value_UnsignedValue (sef_Arg3 s)) (sef_FilterExpression s), sef_Arg3 := None\<rparr>"
  "(case sef_Arg4 s of None \<Rightarrow> s | Some v \<Rightarrow>
      s\<lparr>sef_FilterExpression := LogicalAnd (Equal (Identifier n) (Value (Value_UnsignedValue v))) (sef_FilterExpression s), sef_Arg4 := None\<rparr>)
   = s\<lparr>sef_FilterExpression := foldLegacy n (map_option Value_UnsignedValue (sef_Arg4 s)) (sef_FilterExpression s), sef_Arg4 := None\<rparr>"
  "(case sef_Arg5 s of None \<Rightarrow> s | Some v \<Rightarrow>
      s\<lparr>sef_FilterExpression := LogicalAnd (Equal (Identifier n) (Value (Value_UnsignedValue v))) (sef_FilterExpression s), sef_Arg5 := None\<rparr>)
   = s\<lparr>sef_FilterExpression := foldLegacy n (map_option Value_UnsignedValue (sef_Arg5 s)) (sef_FilterExpression s), sef_Arg5 := None\<rparr>"
  by (cases s; simp add: foldLegacy_def split: option.splits)+

lemma rewrite_refines: "rewriteSyscallEventFilter sef = spec_rewriteSyscallEventFilter sef"
  unfolding rewriteSyscallEventFilter_def spec_rewriteSyscallEventFilter_def Let_def legacy_steps
  by simp

lemma rewrite_no_legacy:
  "sef_Id sef = None \<and> sef_Arg0 sef = None \<and> sef_Arg1 sef = None \<and> sef_Arg2 sef = None
     \<and> sef_Arg3 sef = None \<and> sef_Arg4 sef = None \<and> sef_Arg5 sef = None \<and> sef_Ret sef = None
   \<Longrightarrow> rewriteSyscallEventFilter sef = sef"
  by (simp add: rewriteSyscallEventFilter_def Let_def)

lemma rewrite_idem:
  "rewriteSyscallEventFilter (rewriteSyscallEventFilter sef) = rewriteSyscallEventFilter sef"
proof -
  let ?r = "rewriteSyscallEventFilter sef"
  have "sef_Id ?r = None" by (simp add: rewrite_refines spec_rewriteSyscallEventFilter_def Let_def)
  moreover have t: "sef_Type ?r = sef_Type sef"
    by (simp add: rewrite_refines spec_rewriteSyscallEventFilter_def Let_def)
  moreover have "sef_Type sef = SYSCALL_EVENT_TYPE_ENTER \<Longrightarrow>
      sef_Arg0 ?r = None \<and> sef_Arg1 ?r = None \<and> sef_Arg2 ?r = None
      \<and> sef_Arg3 ?r = None \<and> sef_Arg4 ?r = None \<and> sef_Arg5 ?r = None"
    by (simp add: rewrite_refines spec_rewriteSyscallEventFilter_def Let_def)
  moreover have "sef_Type sef = SYSCALL_EVENT_TYPE_EXIT \<Longrightarrow> sef_Ret ?r = None"
    by (simp add: rewrite_refines spec_rewriteSyscallEventFilter_def Let_def
          SYSCALL_EVENT_TYPE_ENTER_def SYSCALL_EVENT_TYPE_EXIT_def)
  ultimately show ?thesis
    by (subst rewriteSyscallEventFilter_def) (simp add: Let_def)
qed

text \<open>
  C4. \<open>rewriteSyscallEventFilter\<close> does what the specification words: every legacy field that is
  set (the id for every direction, arg0 to arg5 for an enter filter, ret for an exit filter)
  becomes an equality node folded onto the expression by a logical AND, new constraint left and
  existing tree right, and is cleared. A filter with legacy id 5 and no expression becomes the
  expression id == 5 with the id cleared. A filter with no legacy field set is unchanged. The
  direction is kept; afterwards the id is clear, an enter filter has no argument field set and an
  exit filter has no return value set; rewriting a second time changes nothing.
\<close>

theorem rewriteSyscallEventFilter_spec:
  "rewriteSyscallEventFilter sef = spec_rewriteSyscallEventFilter sef
   \<and> rewriteSyscallEventFilter
        \<lparr>sef_Type = t, sef_Id = Some 5, sef_Arg0 = None, sef_Arg1 = None, sef_Arg2 = None,
         sef_Arg3 = None, sef_Arg4 = None, sef_Arg5 = None, sef_Ret = None,
         sef_FilterExpression = None\<rparr>
      = \<lparr>sef_Type = t, sef_Id = None, sef_Arg0 = None, sef_Arg1 = None, sef_Arg2 = None,
         sef_Arg3 = None, sef_Arg4 = None, sef_Arg5 = None, sef_Ret = None,
         sef_FilterExpression = Equal (Identifier ''id'') (Value (Value_SignedValue 5))\<rparr>
   \<and> (sef_Id sef = None \<and> sef_Arg0 sef = None \<and> sef_Arg1 sef = None \<and> sef_Arg2 sef = None
        \<and> sef_Arg3 sef = None \<and> sef_Arg4 sef = None \<and> sef_Arg5 sef = None \<and> sef_Ret sef = None
        \<longrightarrow> rewriteSyscallEventFilter sef = sef)
   \<and> sef_Type (rewriteSyscallEventFilter sef) = sef_Type sef
   \<and> sef_Id (rewriteSyscallEventFilter sef) = None
   \<and> (sef_Type sef = SYSCALL_EVENT_TYPE_ENTER \<longrightarrow>
         sef_Arg0 (rewriteSyscallEventFilter sef) = None
       \<and> sef_Arg1 (rewriteSyscallEventFilter sef) = None
       \<and> sef_Arg2 (rewriteSyscallEventFilter sef) = None
       \<and> sef_Arg3 (rewriteSyscallEventFilter sef) = None
       \<and> sef_Arg4 (rewriteSyscallEventFilter sef) = None
       \<and> sef_Arg5 (rewriteSyscallEventFilter sef) = None)
   \<and> (sef_Type sef = SYSCALL_EVENT_TYPE_EXIT \<longrightarrow> sef_Ret (rewriteSyscallEventFilter sef) = None)
   \<and> rewriteSyscallEventFilter (rewriteSyscallEventFilter sef) = rewriteSyscallEventFilter sef"
proof -
  have ex: "rewriteSyscallEventFilter
        \<lparr>sef_Type = t, sef_Id = Some 5, sef_Arg0 = None, sef_Arg1 = None, sef_Arg2 = None,
         sef_Arg3 = None, sef_Arg4 = None, sef_Arg5 = None, sef_Ret = None,
         sef_FilterExpression = None\<rparr>
      = \<lparr>sef_Type = t, sef_Id = None, sef_Arg0 = None, sef_Arg1 = None, sef_Arg2 = None,
         sef_Arg3 = None, sef_Arg4 = None, sef_Arg5 = None, sef_Ret = None,
         sef_FilterExpression = Equal (Identifier ''id'') (Value (Value_SignedValue 5))\<rparr>"
    by (simp add: rewrite_refines spec_rewriteSyscallEventFilter_def Let_def foldLegacy_def
          LogicalAnd_def Equal_def newBinaryExpr_def)
  have fields: "sef_Type (spec_rewriteSyscallEventFilter sef) = sef_Type sef"
    "sef_Id (spec_rewriteSyscallEventFilter sef) = None"
    "sef_Type sef = SYSCALL_EVENT_TYPE_ENTER \<longrightarrow>
         sef_Arg0 (spec_rewriteSyscallEventFilter sef) = None
       \<and> sef_Arg1 (spec_rewriteSyscallEventFilter sef) = None
       \<and> sef_Arg2 (spec_rewriteSyscallEventFilter sef) = None
       \<and> sef_Arg3 (spec_rewriteSyscallEventFilter sef) = None
       \<and> sef_Arg4 (spec_rewriteSyscallEventFilter sef) = None
       \<and> sef_Arg5 (spec_rewriteSyscallEventFilter sef) = None"
    "sef_Type sef = SYSCALL_EVENT_TYPE_EXIT \<longrightarrow> sef_Ret (spec_rewriteSyscallEventFilter sef) = None"
    by (simp_all add: spec_rewriteSyscallEventFilter_def Let_def
          SYSCALL_EVENT_TYPE_ENTER_def SYSCALL_EVENT_TYPE_EXIT_def)
  show ?thesis
    using ex fields rewrite_no_legacy [of sef] rewrite_idem [of sef]
    unfolding rewrite_refines [symmetric]
    by (intro conjI impI) (simp_all add: rewrite_refines [symmetric])
qed


theorem rewriteSyscallEventFilter_spec_witness:
  "rewriteSyscallEventFilter
      \<lparr>sef_Type = SYSCALL_EVENT_TYPE_ENTER, sef_Id = Some 5, sef_Arg0 = Some 4, sef_Arg1 = None,
       sef_Arg2 = None, sef_Arg3 = None, sef_Arg4 = None, sef_Arg5 = None, sef_Ret = Some 7,
       sef_FilterExpression = None\<rparr>
    = \<lparr>sef_Type = SYSCALL_EVENT_TYPE_ENTER, sef_Id = None, sef_Arg0 = None, sef_Arg1 = None,
       sef_Arg2 = None, sef_Arg3 = None, sef_Arg4 = None, sef_Arg5 = None, sef_Ret = Some 7,
       sef_FilterExpression =
         newBinaryExpr Expression_LOGICAL_AND
           (Equal (Identifier ''arg0'') (Value (Value_UnsignedValue 4)))
           (Equal (Identifier ''id'') (Value (Value_SignedValue 5)))\<rparr>
   \<and> rewriteSyscallEventFilter
      \<lparr>sef_Type = SYSCALL_EVENT_TYPE_EXIT, sef_Id = Some 1, sef_Arg0 = Some 4, sef_Arg1 = None,
       sef_Arg2 = None, sef_Arg3 = None, sef_Arg4 = None, sef_Arg5 = None, sef_Ret = Some 0,
       sef_FilterExpression = None\<rparr>
    = \<lparr>sef_Type = SYSCALL_EVENT_TYPE_EXIT, sef_Id = None, sef_Arg0 = Some 4, sef_Arg1 = None,
       sef_Arg2 = None, sef_Arg3 = None, sef_Arg4 = None, sef_Arg5 = None, sef_Ret = None,
       sef_FilterExpression =
         newBinaryExpr Expression_LOGICAL_AND
           (Equal (Identifier ''ret'') (Value (Value_SignedValue 0)))
           (Equal (Identifier ''id'') (Value (Value_SignedValue 1)))\<rparr>
   \<and> rewriteSyscallEventFilter
      \<lparr>sef_Type = SYSCALL_EVENT_TYPE_ENTER, sef_Id = None, sef_Arg0 = None, sef_Arg1 = None,
       sef_Arg2 = None, sef_Arg3 = None, sef_Arg4 = None, sef_Arg5 = None, sef_Ret = None,
       sef_FilterExpression = Equal (Identifier ''id'') (Value (Value_SignedValue 3))\<rparr>
    = \<lparr>sef_Type = SYSCALL_EVENT_TYPE_ENTER, sef_Id = None, sef_Arg0 = None, sef_Arg1 = None,
       sef_Arg2 = None, sef_Arg3 = None, sef_Arg4 = None, sef_Arg5 = None, sef_Ret = None,
       sef_FilterExpression = Equal (Identifier ''id'') (Value (Value_SignedValue 3))\<rparr>"
  using
    rewriteSyscallEventFilter_spec [where sef =
      "\<lparr>sef_Type = SYSCALL_EVENT_TYPE_ENTER, sef_Id = Some 5, sef_Arg0 = Some 4, sef_Arg1 = None,
       sef_Arg2 = None, sef_Arg3 = None, sef_Arg4 = None, sef_Arg5 = None, sef_Ret = Some 7,
       sef_FilterExpression = None\<rparr>"]
    rewriteSyscallEventFilter_spec [where sef =
      "\<lparr>sef_Type = SYSCALL_EVENT_TYPE_EXIT, sef_Id = Some 1, sef_Arg0 = Some 4, sef_Arg1 = None,
       sef_Arg2 = None, sef_Arg3 = None, sef_Arg4 = None, sef_Arg5 = None, sef_Ret = Some 0,
       sef_FilterExpression = None\<rparr>"]
    rewriteSyscallEventFilter_spec [where sef =
      "\<lparr>sef_Type = SYSCALL_EVENT_TYPE_ENTER, sef_Id = None, sef_Arg0 = None, sef_Arg1 = None,
       sef_Arg2 = None, sef_Arg3 = None, sef_Arg4 = None, sef_Arg5 = None, sef_Ret = None,
       sef_FilterExpression = Equal (Identifier ''id'') (Value (Value_SignedValue 3))\<rparr>"]
  by (simp add: spec_rewriteSyscallEventFilter_def Let_def foldLegacy_def LogicalAnd_def
        Equal_def Identifier_def Value_def newBinaryExpr_def
        SYSCALL_EVENT_TYPE_ENTER_def SYSCALL_EVENT_TYPE_EXIT_def)

subsection \<open>Sample decoders\<close>

text \<open>A sample that lacks a named field makes the type assertion of a real decoder panic.\<close>

lemma decode_panics_on_missing_field:
  "NewEventFromSample sample data = Some ev \<Longrightarrow> data ''id'' = None \<Longrightarrow>
     decodeSyscallTraceEnter NewEventFromSample sample data = Inl (TypeAssertionFailed ''int64'')
     \<and> decodeSysExit NewEventFromSample sample data = Inl (TypeAssertionFailed ''int64'')"
  by (simp add: decodeSyscallTraceEnter_def decodeSysExit_def pbind_def assert_int64_def)

text \<open>
  C9. The decoder of the dummy event returns no event and no error for every sample. When
  \<open>NewEventFromSample\<close> returns nil, the enter and the exit decoder return no event and no
  error. Otherwise, on a sample whose named fields hold the id as \<^verbatim>\<open>int64\<close> and the six
  arguments as \<^verbatim>\<open>uint64\<close>, the enter decoder returns the envelope with a syscall event of
  type ENTER carrying these seven values; on a sample whose fields hold the id and the return
  value as \<^verbatim>\<open>int64\<close>, the exit decoder returns the envelope with a syscall event of type EXIT
  carrying both.
\<close>

theorem decoders_skip_or_type:
  fixes NewEventFromSample :: "'s \<Rightarrow> TraceEventSampleData \<Rightarrow> 'e TelemetryEvent option"
  shows
  "decodeDummySysEnter sample data
     = (Inr (None, None) :: panic + ('e TelemetryEvent option \<times> string option))
   \<and> (NewEventFromSample sample data = None \<longrightarrow>
         decodeSyscallTraceEnter NewEventFromSample sample data = Inr (None, None)
       \<and> decodeSysExit NewEventFromSample sample data = Inr (None, None))
   \<and> (NewEventFromSample sample data = Some ev
        \<and> data ''id'' = Some (Sample_int64 i)
        \<and> data ''arg0'' = Some (Sample_uint64 aa) \<and> data ''arg1'' = Some (Sample_uint64 ab)
        \<and> data ''arg2'' = Some (Sample_uint64 ac) \<and> data ''arg3'' = Some (Sample_uint64 ad)
        \<and> data ''arg4'' = Some (Sample_uint64 ae) \<and> data ''arg5'' = Some (Sample_uint64 af)
        \<longrightarrow>
         decodeSyscallTraceEnter NewEventFromSample sample data
           = Inr (Some (ev\<lparr>Event := Some (TelemetryEvent_Syscall
                   \<lparr>ev_Type = SYSCALL_EVENT_TYPE_ENTER, ev_Id = i,
                    ev_Arg0 = aa, ev_Arg1 = ab, ev_Arg2 = ac,
                    ev_Arg3 = ad, ev_Arg4 = ae, ev_Arg5 = af, ev_Ret = 0\<rparr>)\<rparr>), None))
   \<and> (NewEventFromSample sample data = Some ev
        \<and> data ''id'' = Some (Sample_int64 i) \<and> data ''ret'' = Some (Sample_int64 r)
        \<longrightarrow>
         decodeSysExit NewEventFromSample sample data
           = Inr (Some (ev\<lparr>Event := Some (TelemetryEvent_Syscall
                   \<lparr>ev_Type = SYSCALL_EVENT_TYPE_EXIT, ev_Id = i,
                    ev_Arg0 = 0, ev_Arg1 = 0, ev_Arg2 = 0,
                    ev_Arg3 = 0, ev_Arg4 = 0, ev_Arg5 = 0, ev_Ret = r\<rparr>)\<rparr>), None))"
  by (simp add: decodeDummySysEnter_def decodeSyscallTraceEnter_def decodeSysExit_def pbind_def
        assert_int64_def assert_uint64_def)

theorem decoders_skip_or_type_witness:
  "decodeSyscallTraceEnter (\<lambda>s d. if s then Some \<lparr>Envelope = ''pid 1'', Event = None\<rparr> else None)
       True sampleEnterData
     = Inr (Some \<lparr>Envelope = ''pid 1'', Event = Some (TelemetryEvent_Syscall
             \<lparr>ev_Type = SYSCALL_EVENT_TYPE_ENTER, ev_Id = 2,
              ev_Arg0 = 10, ev_Arg1 = 11, ev_Arg2 = 12,
              ev_Arg3 = 13, ev_Arg4 = 14, ev_Arg5 = 15, ev_Ret = 0\<rparr>)\<rparr>, None)
   \<and> decodeSysExit (\<lambda>s d. if s then Some \<lparr>Envelope = ''pid 1'', Event = None\<rparr> else None)
       True sampleEnterData
     = Inr (Some \<lparr>Envelope = ''pid 1'', Event = Some (TelemetryEvent_Syscall
             \<lparr>ev_Type = SYSCALL_EVENT_TYPE_EXIT, ev_Id = 2,
              ev_Arg0 = 0, ev_Arg1 = 0, ev_Arg2 = 0,
              ev_Arg3 = 0, ev_Arg4 = 0, ev_Arg5 = 0, ev_Ret = - 1\<rparr>)\<rparr>, None)
   \<and> decodeSyscallTraceEnter (\<lambda>s d. if s then Some \<lparr>Envelope = ''pid 1'', Event = None\<rparr> else None)
       False sampleEnterData = Inr (None, None)
   \<and> decodeSysExit (\<lambda>s d. if s then Some \<lparr>Envelope = ''pid 1'', Event = None\<rparr> else None)
       False sampleEnterData = Inr (None, None)"
  using
    decoders_skip_or_type [where NewEventFromSample =
        "\<lambda>s d. if s then Some \<lparr>Envelope = ''pid 1'', Event = None\<rparr> else None"
      and sample = True and data = sampleEnterData
      and ev = "\<lparr>Envelope = ''pid 1'', Event = None\<rparr>"
      and i = 2 and r = "- 1" and aa = 10 and ab = 11 and ac = 12 and ad = 13 and ae = 14
      and af = 15]
    decoders_skip_or_type [where NewEventFromSample =
        "\<lambda>s d. if s then Some \<lparr>Envelope = ''pid 1'', Event = None\<rparr> else None"
      and sample = False and data = sampleEnterData]
  by (simp add: sampleEnterData_def)

subsection \<open>The loop over the filters\<close>

text \<open>
  The diagnostics are only ever appended: each block of the registration run on a subscription
  is the block run on the subscription with an empty list of diagnostics, with the earlier
  diagnostics put in front.
\<close>

lemma dummy_frame:
  "registerDummySyscallEvent k sensor s =
     (case registerDummySyscallEvent k sensor (s\<lparr>status := []\<rparr>) of
        (se, su) \<Rightarrow> (se, su\<lparr>status := status s @ status su\<rparr>))"
  by (simp add: registerDummySyscallEvent_def logStatus_def Let_def
        split: prod.splits sum.splits)

lemma kprobe_frame:
  "registerSyscallEnterKprobe k ef sensor s =
     (case registerSyscallEnterKprobe k ef sensor (s\<lparr>status := []\<rparr>) of
        (se, su) \<Rightarrow> (se, su\<lparr>status := status s @ status su\<rparr>))"
  by (auto simp: registerSyscallEnterKprobe_def logStatus_def addEventSink_def set_unregister_def
        Let_def split: prod.splits sum.splits option.splits)

lemma exit_frame:
  "registerSyscallExit k xf sensor s =
     (case registerSyscallExit k xf sensor (s\<lparr>status := []\<rparr>) of
        (se, su) \<Rightarrow> (se, su\<lparr>status := status s @ status su\<rparr>))"
  by (auto simp: registerSyscallExit_def logStatus_def addEventSink_def
        Let_def split: prod.splits sum.splits option.splits)


lemma union_loop_frame_gen:
  "unionSyscallEventFilters events (ef, xf, s\<lparr>status := l\<rparr>) =
     (case unionSyscallEventFilters events (ef, xf, s\<lparr>status := []\<rparr>) of
        Inl p \<Rightarrow> Inl p
      | Inr (e, x, su) \<Rightarrow> Inr (e, x, su\<lparr>status := l @ status su\<rparr>))"
proof (induction events arbitrary: ef xf l)
  case Nil
  then show ?case by simp
next
  case (Cons sef0 rest)
  have A: "\<And>e x d. unionSyscallEventFilters rest (e, x, s\<lparr>status := l @ [d]\<rparr>) =
     (case unionSyscallEventFilters rest (e, x, s\<lparr>status := []\<rparr>) of
        Inl p \<Rightarrow> Inl p
      | Inr (e', x', su) \<Rightarrow> Inr (e', x', su\<lparr>status := l @ d # status su\<rparr>))"
    by (simp add: Cons.IH [where l = "l @ [d]" for d] split: sum.splits)
  have B: "\<And>e x d. unionSyscallEventFilters rest (e, x, s\<lparr>status := [d]\<rparr>) =
     (case unionSyscallEventFilters rest (e, x, s\<lparr>status := []\<rparr>) of
        Inl p \<Rightarrow> Inl p
      | Inr (e', x', su) \<Rightarrow> Inr (e', x', su\<lparr>status := d # status su\<rparr>))"
    by (simp add: Cons.IH [where l = "[d]" for d] split: sum.splits)
  show ?case
    by (simp add: Let_def logStatus_def A B Cons.IH [where l = l] split: sum.splits bool.splits)
qed

lemma union_loop_frame:
  "unionSyscallEventFilters events (ef, xf, s) =
     (case unionSyscallEventFilters events (ef, xf, s\<lparr>status := []\<rparr>) of
        Inl p \<Rightarrow> Inl p
      | Inr (e, x, su) \<Rightarrow> Inr (e, x, su\<lparr>status := status s @ status su\<rparr>))"
  using union_loop_frame_gen [where s = s and l = "status s"] by simp

lemma union_loop_append:
  "unionSyscallEventFilters (pre @ post) st =
     (case unionSyscallEventFilters pre st of
        Inl p \<Rightarrow> Inl p
      | Inr st' \<Rightarrow> unionSyscallEventFilters post st')"
proof (induction pre arbitrary: st)
  case Nil
  then show ?case by simp
next
  case (Cons sef0 rest)
  obtain ef xf s where st: "st = (ef, xf, s)" by (cases st) auto
  show ?case
    unfolding st by (simp add: Let_def Cons.IH split: sum.splits bool.splits)
qed

lemma union_frame:
  "registerUnionFilters k ef xf sensor s =
     (case registerUnionFilters k ef xf sensor (s\<lparr>status := []\<rparr>) of
        (se, su) \<Rightarrow> (se, su\<lparr>status := status s @ status su\<rparr>))"
proof -
  obtain sd ud where d: "registerDummySyscallEvent k sensor (s\<lparr>status := []\<rparr>) = (sd, ud)"
    by (cases "registerDummySyscallEvent k sensor (s\<lparr>status := []\<rparr>)") auto
  then have d': "registerDummySyscallEvent k sensor s = (sd, ud\<lparr>status := status s @ status ud\<rparr>)"
    by (subst dummy_frame) simp
  obtain sk uk where kk: "registerSyscallEnterKprobe k ef sd (ud\<lparr>status := []\<rparr>) = (sk, uk)"
    by (cases "registerSyscallEnterKprobe k ef sd (ud\<lparr>status := []\<rparr>)") auto
  have k1: "registerSyscallEnterKprobe k ef sd ud = (sk, uk\<lparr>status := status ud @ status uk\<rparr>)"
    using kk by (subst kprobe_frame) simp
  have k2: "registerSyscallEnterKprobe k ef sd (ud\<lparr>status := status s @ status ud\<rparr>)
      = (sk, uk\<lparr>status := status s @ status ud @ status uk\<rparr>)"
    using kk by (subst kprobe_frame) simp
  have x: "\<And>se u l. registerSyscallExit k xf se (u\<lparr>status := l\<rparr>) =
     (case registerSyscallExit k xf se (u\<lparr>status := []\<rparr>) of
        (se', su) \<Rightarrow> (se', su\<lparr>status := l @ status su\<rparr>))"
    by (subst exit_frame) simp
  have x0: "\<And>se. registerSyscallExit k xf se s =
     (case registerSyscallExit k xf se (s\<lparr>status := []\<rparr>) of
        (se', su) \<Rightarrow> (se', su\<lparr>status := status s @ status su\<rparr>))"
    by (rule exit_frame)
  show ?thesis
  proof (cases "ef = None")
    case True
    then show ?thesis
      by (cases "xf = None") (simp_all add: registerUnionFilters_def x0)
  next
    case False
    then show ?thesis
      by (cases "xf = None")
         (simp_all add: registerUnionFilters_def d d' k1 k2
            x [where l = "status s @ status ud @ status uk"]
            x [where l = "status ud @ status uk"] split: prod.splits)
  qed
qed

lemma evaluate_LogicalOr:
  "evaluateExpression cmp (LogicalOr a b) = (evaluateExpression cmp a \<or> evaluateExpression cmp b)"
  by (cases a; cases b) (simp_all add: LogicalOr_def newBinaryExpr_def)

lemma evaluate_foldl_LogicalOr:
  "evaluateExpression cmp (foldl LogicalOr a fs)
     = (evaluateExpression cmp a \<or> (\<exists>f \<in> set fs. evaluateExpression cmp f))"
  by (induction fs arbitrary: a) (auto simp: evaluate_LogicalOr)

lemma union_loop_result:
  assumes "\<forall>sef \<in> set events. \<exists>b. containsIDFilter (sef_FilterExpression (rewriteSyscallEventFilter sef)) = Inr b"
  shows "unionSyscallEventFilters events (enterFilter, exitFilter, subscr)
     = Inr (foldl LogicalOr enterFilter (validatedFilters SYSCALL_EVENT_TYPE_ENTER events),
            foldl LogicalOr exitFilter (validatedFilters SYSCALL_EVENT_TYPE_EXIT events),
            subscr\<lparr>status := status subscr @ concat (map filterDiagnostic events)\<rparr>)"
  using assms
proof (induction events arbitrary: enterFilter exitFilter subscr)
  case Nil
  then show ?case by (simp add: validatedFilters_def)
next
  case (Cons sef0 rest)
  obtain b where b: "containsIDFilter (sef_FilterExpression (rewriteSyscallEventFilter sef0)) = Inr b"
    using Cons.prems by auto
  have IH: "\<And>e x s. unionSyscallEventFilters rest (e, x, s)
     = Inr (foldl LogicalOr e (validatedFilters SYSCALL_EVENT_TYPE_ENTER rest),
            foldl LogicalOr x (validatedFilters SYSCALL_EVENT_TYPE_EXIT rest),
            s\<lparr>status := status s @ concat (map filterDiagnostic rest)\<rparr>)"
    using Cons.IH Cons.prems by simp
  have fd: "filterDiagnostic sef0 =
      (if \<not> b then [(Code_INVALID_ARGUMENT, ''Wildcard syscall filter ignored'')]
       else if sef_Type (rewriteSyscallEventFilter sef0) \<noteq> SYSCALL_EVENT_TYPE_ENTER
             \<and> sef_Type (rewriteSyscallEventFilter sef0) \<noteq> SYSCALL_EVENT_TYPE_EXIT
       then [(Code_INVALID_ARGUMENT,
              ''SyscallEventType '' @ Sprintf_d (sef_Type (rewriteSyscallEventFilter sef0))
                @ '' is invalid'')]
       else [])"
    using b by (simp add: filterDiagnostic_def Let_def)
  have ne: "SYSCALL_EVENT_TYPE_ENTER \<noteq> SYSCALL_EVENT_TYPE_EXIT"
    by (simp add: SYSCALL_EVENT_TYPE_ENTER_def SYSCALL_EVENT_TYPE_EXIT_def)
  show ?case
    using b ne
    by (cases b) (auto simp: IH Let_def validatedFilters_def fd logStatus_def)
qed

text \<open>
  C5. For every list of filter specs on which \<open>containsIDFilter\<close> does not panic, the loop
  returns, and the enter union is the repeated \<open>LogicalOr\<close>, starting from the absent
  expression, of the validated enter filters in the order of the request; likewise the exit
  union. An absent operand is neutral for \<open>LogicalOr\<close>. Whatever the comparison \<open>cmp\<close> of the
  engine is, a union matches exactly when at least one of its constituent filters matches.
  The union of the enter filters id == 2 and id == 3 is the OR node of the two, and with the
  comparison of a named field it matches a sample exactly when the id of the sample is 2 or 3.
\<close>

theorem union_is_disjunction:
  assumes "\<forall>sef \<in> set events.
             \<exists>b. containsIDFilter (sef_FilterExpression (rewriteSyscallEventFilter sef)) = Inr b"
  shows "\<exists>enterFilter exitFilter subscr'.
           unionSyscallEventFilters events (None, None, subscr) = Inr (enterFilter, exitFilter, subscr')
         \<and> enterFilter = foldl LogicalOr None (validatedFilters SYSCALL_EVENT_TYPE_ENTER events)
         \<and> exitFilter = foldl LogicalOr None (validatedFilters SYSCALL_EVENT_TYPE_EXIT events)
         \<and> LogicalOr None f = f \<and> LogicalOr f None = f
         \<and> (evaluateExpression cmp enterFilter \<longleftrightarrow>
              (\<exists>f \<in> set (validatedFilters SYSCALL_EVENT_TYPE_ENTER events). evaluateExpression cmp f))
         \<and> (evaluateExpression cmp exitFilter \<longleftrightarrow>
              (\<exists>f \<in> set (validatedFilters SYSCALL_EVENT_TYPE_EXIT events). evaluateExpression cmp f))
         \<and> unionSyscallEventFilters
               [idFilter SYSCALL_EVENT_TYPE_ENTER 2, idFilter SYSCALL_EVENT_TYPE_ENTER 3]
               (None, None, subscr)
             = Inr (newBinaryExpr Expression_LOGICAL_OR
                      (Equal (Identifier ''id'') (Value (Value_SignedValue 2)))
                      (Equal (Identifier ''id'') (Value (Value_SignedValue 3))),
                    None, subscr)
         \<and> (evaluateExpression (fieldEquals sample)
                (newBinaryExpr Expression_LOGICAL_OR
                   (Equal (Identifier ''id'') (Value (Value_SignedValue 2)))
                   (Equal (Identifier ''id'') (Value (Value_SignedValue 3))))
              \<longleftrightarrow> sample ''id'' = Some (Value_SignedValue 2)
                  \<or> sample ''id'' = Some (Value_SignedValue 3))"
proof -
  have example: "unionSyscallEventFilters
               [idFilter SYSCALL_EVENT_TYPE_ENTER 2, idFilter SYSCALL_EVENT_TYPE_ENTER 3]
               (None, None, subscr)
             = Inr (newBinaryExpr Expression_LOGICAL_OR
                      (Equal (Identifier ''id'') (Value (Value_SignedValue 2)))
                      (Equal (Identifier ''id'') (Value (Value_SignedValue 3))),
                    None, subscr)"
    by (simp add: eval_defs)
  have matches: "evaluateExpression (fieldEquals sample)
                (newBinaryExpr Expression_LOGICAL_OR
                   (Equal (Identifier ''id'') (Value (Value_SignedValue 2)))
                   (Equal (Identifier ''id'') (Value (Value_SignedValue 3))))
              \<longleftrightarrow> sample ''id'' = Some (Value_SignedValue 2)
                  \<or> sample ''id'' = Some (Value_SignedValue 3)"
    by (simp add: Equal_def Identifier_def Value_def newBinaryExpr_def)
  show ?thesis
    using union_loop_result [OF assms, of None None subscr] example matches
    by (simp add: evaluate_foldl_LogicalOr LogicalOr_def)
qed



theorem union_is_disjunction_witness:
  "unionSyscallEventFilters
      [idFilter SYSCALL_EVENT_TYPE_ENTER 2, idFilter SYSCALL_EVENT_TYPE_ENTER 3]
      (None, None, subscr0)
    = Inr (newBinaryExpr Expression_LOGICAL_OR
             (Equal (Identifier ''id'') (Value (Value_SignedValue 2)))
             (Equal (Identifier ''id'') (Value (Value_SignedValue 3))),
           None, subscr0)
   \<and> evaluateExpression (fieldEquals [''id'' \<mapsto> Value_SignedValue 2])
        (newBinaryExpr Expression_LOGICAL_OR
           (Equal (Identifier ''id'') (Value (Value_SignedValue 2)))
           (Equal (Identifier ''id'') (Value (Value_SignedValue 3))))
   \<and> evaluateExpression (fieldEquals [''id'' \<mapsto> Value_SignedValue 3])
        (newBinaryExpr Expression_LOGICAL_OR
           (Equal (Identifier ''id'') (Value (Value_SignedValue 2)))
           (Equal (Identifier ''id'') (Value (Value_SignedValue 3))))
   \<and> \<not> evaluateExpression (fieldEquals [''id'' \<mapsto> Value_SignedValue 4])
        (newBinaryExpr Expression_LOGICAL_OR
           (Equal (Identifier ''id'') (Value (Value_SignedValue 2)))
           (Equal (Identifier ''id'') (Value (Value_SignedValue 3))))"
proof -
  let ?events = "[idFilter SYSCALL_EVENT_TYPE_ENTER 2, idFilter SYSCALL_EVENT_TYPE_ENTER 3]"
  have ok: "\<forall>sef \<in> set ?events.
      \<exists>b. containsIDFilter (sef_FilterExpression (rewriteSyscallEventFilter sef)) = Inr b"
    by (auto simp: eval_defs)
  have v: "validatedFilters SYSCALL_EVENT_TYPE_ENTER ?events
      = [Equal (Identifier ''id'') (Value (Value_SignedValue 2)),
         Equal (Identifier ''id'') (Value (Value_SignedValue 3))]"
    "validatedFilters SYSCALL_EVENT_TYPE_EXIT ?events = []"
    by (simp_all add: validatedFilters_def eval_defs)
  show ?thesis
    using
      union_is_disjunction [OF ok, of subscr0 None "fieldEquals [''id'' \<mapsto> Value_SignedValue 2]"]
      union_is_disjunction [OF ok, of subscr0 None "fieldEquals [''id'' \<mapsto> Value_SignedValue 3]"]
      union_is_disjunction [OF ok, of subscr0 None "fieldEquals [''id'' \<mapsto> Value_SignedValue 4]"]
    unfolding v
    by (simp add: eval_defs)
qed

lemma dropped_step:
  assumes "containsIDFilter (sef_FilterExpression (rewriteSyscallEventFilter sef)) = Inr False"
  shows "unionSyscallEventFilters (sef # rest) (ef, xf, s)
     = unionSyscallEventFilters rest
         (ef, xf, logStatus s Code_INVALID_ARGUMENT ''Wildcard syscall filter ignored'')"
  using assms by (simp add: Let_def)

text \<open>
  C8. A filter spec whose rewritten expression fails \<open>containsIDFilter\<close> is dropped. In the
  loop it leaves both unions as they are and logs the one diagnostic INVALID_ARGUMENT
  "Wildcard syscall filter ignored". For the whole call: \<open>registerSyscallEvents\<close> on a request
  with the spec anywhere in it ends as on the request without it, with the same sensor (the
  same registered events and the same calls to the monitor), the same sinks, and the same
  diagnostics plus that one, at its place; and it panics exactly as the request without it does.
\<close>

theorem wildcard_filter_dropped:
  assumes drop: "containsIDFilter (sef_FilterExpression (rewriteSyscallEventFilter sef)) = Inr False"
  shows "unionSyscallEventFilters (sef # rest) (enterFilter, exitFilter, s)
           = unionSyscallEventFilters rest
               (enterFilter, exitFilter,
                logStatus s Code_INVALID_ARGUMENT ''Wildcard syscall filter ignored'')
       \<and> (registerSyscallEvents k sensor subscr (pre @ post) = Inl p \<longrightarrow>
            registerSyscallEvents k sensor subscr (pre @ sef # post) = Inl p)
       \<and> (registerSyscallEvents k sensor subscr (pre @ post) = Inr (sensor', subscr') \<longrightarrow>
            (\<exists>l1 l2. status subscr' = l1 @ l2
               \<and> registerSyscallEvents k sensor subscr (pre @ sef # post)
                   = Inr (sensor',
                          subscr'\<lparr>status := l1
                             @ [(Code_INVALID_ARGUMENT, ''Wildcard syscall filter ignored'')]
                             @ l2\<rparr>)))"
proof -
  let ?d = "(Code_INVALID_ARGUMENT, ''Wildcard syscall filter ignored'')"
  let ?with = "registerSyscallEvents k sensor subscr (pre @ sef # post)"
  let ?without = "registerSyscallEvents k sensor subscr (pre @ post)"
  have step: "unionSyscallEventFilters (sef # rest) (enterFilter, exitFilter, s)
           = unionSyscallEventFilters rest
               (enterFilter, exitFilter, logStatus s Code_INVALID_ARGUMENT ''Wildcard syscall filter ignored'')"
    by (rule dropped_step [OF drop])
  have both: "(?without = Inl p \<longrightarrow> ?with = Inl p)
       \<and> (?without = Inr (sensor', subscr') \<longrightarrow>
            (\<exists>l1 l2. status subscr' = l1 @ l2
               \<and> ?with = Inr (sensor', subscr'\<lparr>status := l1 @ [?d] @ l2\<rparr>)))"
  proof (cases "unionSyscallEventFilters pre (None, None, subscr)")
    case (Inl p0)
    then show ?thesis
      by (simp add: registerSyscallEvents_def union_loop_append)
  next
    case (Inr st1)
    obtain e x s1 where st1: "st1 = (e, x, s1)" by (cases st1) auto
    have wo: "unionSyscallEventFilters (pre @ post) (None, None, subscr)
        = unionSyscallEventFilters post (e, x, s1)"
      by (simp add: union_loop_append Inr st1)
    have fwo: "unionSyscallEventFilters post (e, x, s1) =
       (case unionSyscallEventFilters post (e, x, s1\<lparr>status := []\<rparr>) of
          Inl p \<Rightarrow> Inl p
        | Inr (e', x', su) \<Rightarrow> Inr (e', x', su\<lparr>status := status s1 @ status su\<rparr>))"
      by (rule union_loop_frame)
    have fwi: "unionSyscallEventFilters post (e, x, s1\<lparr>status := status s1 @ [?d]\<rparr>) =
       (case unionSyscallEventFilters post (e, x, s1\<lparr>status := []\<rparr>) of
          Inl p \<Rightarrow> Inl p
        | Inr (e', x', su) \<Rightarrow> Inr (e', x', su\<lparr>status := (status s1 @ [?d]) @ status su\<rparr>))"
      by (rule union_loop_frame_gen)
    have wi: "unionSyscallEventFilters (pre @ sef # post) (None, None, subscr)
        = unionSyscallEventFilters post (e, x, s1\<lparr>status := status s1 @ [?d]\<rparr>)"
      by (simp add: union_loop_append Inr st1 drop Let_def logStatus_def)
    show ?thesis
    proof (cases "unionSyscallEventFilters post (e, x, s1\<lparr>status := []\<rparr>)")
      case (Inl q)
      then show ?thesis
        by (simp add: registerSyscallEvents_def wo wi fwo fwi)
    next
      case (Inr st2)
      obtain e2 x2 su where st2: "st2 = (e2, x2, su)" by (cases st2) auto
      obtain se ru where r0: "registerUnionFilters k e2 x2 sensor (su\<lparr>status := []\<rparr>) = (se, ru)"
        by (cases "registerUnionFilters k e2 x2 sensor (su\<lparr>status := []\<rparr>)") auto
      have fr: "\<And>l. registerUnionFilters k e2 x2 sensor (su\<lparr>status := l\<rparr>)
          = (se, ru\<lparr>status := l @ status ru\<rparr>)"
        using r0 by (subst union_frame) simp
      have a: "?without = Inr (se, ru\<lparr>status := status s1 @ status su @ status ru\<rparr>)"
        by (simp add: registerSyscallEvents_def wo fwo Inr st2 fr)
      have b: "?with = Inr (se, ru\<lparr>status := status s1 @ [?d] @ status su @ status ru\<rparr>)"
        by (simp add: registerSyscallEvents_def wi fwi Inr st2 fr)
      show ?thesis
      proof (intro conjI impI)
        assume "?without = Inl p"
        then show "?with = Inl p" using a by simp
      next
        assume "?without = Inr (sensor', subscr')"
        then have eq: "sensor' = se" "subscr' = ru\<lparr>status := status s1 @ status su @ status ru\<rparr>"
          using a by simp_all
        have "status subscr' = status s1 @ (status su @ status ru)
              \<and> ?with = Inr (sensor', subscr'\<lparr>status := status s1 @ [?d] @ (status su @ status ru)\<rparr>)"
          using b eq by simp
        then show "\<exists>l1 l2. status subscr' = l1 @ l2
               \<and> ?with = Inr (sensor', subscr'\<lparr>status := l1 @ [?d] @ l2\<rparr>)"
          by blast
      qed
    qed
  qed
  show ?thesis using step both by simp
qed

theorem wildcard_filter_dropped_witness:
  "registerSyscallEvents (machine 4 [] [] False) sensor0 subscr0
      [idFilter SYSCALL_EVENT_TYPE_ENTER 2, wildcardFilter, idFilter SYSCALL_EVENT_TYPE_EXIT 3]
   = Inr (\<lparr>Monitor =
            \<lparr>registeredEvents =
               [(1, ''raw_syscalls/sys_enter''), (2, ''syscall_trace_enter_phase1''),
                (3, ''raw_syscalls/sys_exit'')],
             nextID = 4,
             calls =
               [Call_RegisterTracepoint ''raw_syscalls/sys_enter'' Decoder_decodeDummySysEnter
                  [WithEventGroup 0, WithFilter ''id == 0x7fffffff''] (Inr 1),
                Call_RegisterKprobe ''syscall_trace_enter_phase1'' False
                  syscallEnterKprobeFetchargs Decoder_decodeSyscallTraceEnter
                  [WithEventGroup 7] (Inr 2),
                Call_RegisterTracepoint ''raw_syscalls/sys_exit'' Decoder_decodeSysExit
                  [WithEventGroup 7] (Inr 3)]\<rparr>,
          dummySyscallEventCount = 1, dummySyscallEventID = 1\<rparr>,
         \<lparr>eventGroupID = 7,
          eventSinks =
            [\<lparr>es_eventID = 2,
              es_filter = Equal (Identifier ''id'') (Value (Value_SignedValue 2)),
              es_filterTypes = syscallEnterEventTypes,
              unregister = Some dummySyscallEventUnregister\<rparr>,
             \<lparr>es_eventID = 3,
              es_filter = Equal (Identifier ''id'') (Value (Value_SignedValue 3)),
              es_filterTypes = syscallExitEventTypes, unregister = None\<rparr>],
          status = [(Code_INVALID_ARGUMENT, ''Wildcard syscall filter ignored'')]\<rparr>)"
proof -
  let ?S = "\<lparr>Monitor =
            \<lparr>registeredEvents =
               [(1, ''raw_syscalls/sys_enter''), (2, ''syscall_trace_enter_phase1''),
                (3, ''raw_syscalls/sys_exit'')],
             nextID = 4,
             calls =
               [Call_RegisterTracepoint ''raw_syscalls/sys_enter'' Decoder_decodeDummySysEnter
                  [WithEventGroup 0, WithFilter ''id == 0x7fffffff''] (Inr 1),
                Call_RegisterKprobe ''syscall_trace_enter_phase1'' False
                  syscallEnterKprobeFetchargs Decoder_decodeSyscallTraceEnter
                  [WithEventGroup 7] (Inr 2),
                Call_RegisterTracepoint ''raw_syscalls/sys_exit'' Decoder_decodeSysExit
                  [WithEventGroup 7] (Inr 3)]\<rparr>,
          dummySyscallEventCount = 1, dummySyscallEventID = 1\<rparr>"
  let ?U = "\<lparr>eventGroupID = 7,
          eventSinks =
            [\<lparr>es_eventID = 2,
              es_filter = Equal (Identifier ''id'') (Value (Value_SignedValue 2)),
              es_filterTypes = syscallEnterEventTypes,
              unregister = Some dummySyscallEventUnregister\<rparr>,
             \<lparr>es_eventID = 3,
              es_filter = Equal (Identifier ''id'') (Value (Value_SignedValue 3)),
              es_filterTypes = syscallExitEventTypes, unregister = None\<rparr>],
          status = []\<rparr>"
  have drop: "containsIDFilter (sef_FilterExpression (rewriteSyscallEventFilter wildcardFilter))
      = Inr False"
    by (simp add: eval_defs)
  have without: "registerSyscallEvents (machine 4 [] [] False) sensor0 subscr0
      ([idFilter SYSCALL_EVENT_TYPE_ENTER 2] @ [idFilter SYSCALL_EVENT_TYPE_EXIT 3])
      = Inr (?S, ?U)"
    by (simp add: eval_defs)
  show ?thesis
    using wildcard_filter_dropped [OF drop,
        where k = "machine 4 [] [] False" and sensor = sensor0 and subscr = subscr0
          and pre = "[idFilter SYSCALL_EVENT_TYPE_ENTER 2]"
          and post = "[idFilter SYSCALL_EVENT_TYPE_EXIT 3]"
          and sensor' = ?S and subscr' = ?U] without
    by auto
qed


subsection \<open>The registration of the enter direction\<close>

lemma registerSyscallEvents_blocks:
  assumes "unionSyscallEventFilters events (None, None, subscr) = Inr (Some ef, exitFilter, subscr1)"
  shows "registerSyscallEvents k sensor subscr events =
     Inr (case registerDummySyscallEvent k sensor subscr1 of
            (sensorD, subscrD) \<Rightarrow>
              (case registerSyscallEnterKprobe k (Some ef) sensorD subscrD of
                 (sensorE, subscrE) \<Rightarrow>
                   if exitFilter \<noteq> None
                   then registerSyscallExit k exitFilter sensorE subscrE
                   else (sensorE, subscrE)))"
  using assms
  by (simp add: registerSyscallEvents_def registerUnionFilters_def split: prod.splits)

lemma enter_kprobe_both_fail:
  assumes "kprobeError k syscallNewEnterKprobeAddress = Some errNew"
      and "kprobeError k syscallOldEnterKprobeAddress = Some errOld"
  shows "registerSyscallEnterKprobe k enterFilter sensorD subscrD =
     (sensorD\<lparr>Monitor := (Monitor sensorD)\<lparr>calls := calls (Monitor sensorD) @
         [Call_RegisterKprobe syscallNewEnterKprobeAddress False syscallEnterKprobeFetchargs
            Decoder_decodeSyscallTraceEnter [WithEventGroup (eventGroupID subscrD)] (Inl errNew),
          Call_RegisterKprobe syscallOldEnterKprobeAddress False syscallEnterKprobeFetchargs
            Decoder_decodeSyscallTraceEnter [WithEventGroup (eventGroupID subscrD)] (Inl errOld)]\<rparr>\<rparr>,
      logStatus subscrD Code_UNKNOWN
        (''Could not register syscall enter kprobe syscall_trace_enter: '' @ errOld))"
  using assms
  by (simp add: registerSyscallEnterKprobe_def RegisterKprobe_def Let_def
        syscallOldEnterKprobeAddress_def)

lemma kprobeAttempts_append: "kprobeAttempts (xs @ ys) = kprobeAttempts xs @ kprobeAttempts ys"
  by (induction xs rule: kprobeAttempts.induct) simp_all

lemma kprobeAttempts_dummy:
  "kprobeAttempts (calls (Monitor (fst (registerDummySyscallEvent k sensor subscr))))
     = kprobeAttempts (calls (Monitor sensor))"
  by (simp add: registerDummySyscallEvent_def RegisterTracepoint_def Let_def kprobeAttempts_append
        split: option.splits)

lemma kprobeAttempts_exit:
  "kprobeAttempts (calls (Monitor (fst (registerSyscallExit k xf sensor subscr))))
     = kprobeAttempts (calls (Monitor sensor))"
  by (simp add: registerSyscallExit_def RegisterTracepoint_def UnregisterEvent_def addEventSink_def
        Let_def kprobeAttempts_append split: option.splits)

lemma kprobeAttempts_enter:
  "kprobeAttempts (calls (Monitor (fst (registerSyscallEnterKprobe k ef sensor subscr))))
     = kprobeAttempts (calls (Monitor sensor)) @
       (if kprobeError k syscallNewEnterKprobeAddress = None
        then [(syscallNewEnterKprobeAddress, syscallEnterKprobeFetchargs)]
        else [(syscallNewEnterKprobeAddress, syscallEnterKprobeFetchargs),
              (syscallOldEnterKprobeAddress, syscallEnterKprobeFetchargs)])"
  by (simp add: registerSyscallEnterKprobe_def RegisterKprobe_def UnregisterEvent_def
        addEventSink_def Let_def kprobeAttempts_append split: option.splits)

lemma union_loop_sinks:
  "unionSyscallEventFilters events (ef, xf, s) = Inr (e, x, s') \<Longrightarrow> eventSinks s' = eventSinks s"
proof (induction events arbitrary: ef xf s)
  case Nil
  then show ?case by simp
next
  case (Cons sef0 rest)
  then show ?case
    by (auto simp: Let_def logStatus_def split: sum.splits bool.splits if_splits)
qed

text \<open>
  C6. When the enter union is present, the enter kprobe is attempted at
  \<^verbatim>\<open>syscall_trace_enter_phase1\<close> first; a second attempt, at \<^verbatim>\<open>syscall_trace_enter\<close> and with
  the same fetch arguments, is made exactly when the first fails, and no other kprobe is
  attempted. When both fail, the call ends as the exit direction leaves the state reached after
  the dummy event, with the two failed calls recorded and the one diagnostic UNKNOWN naming
  \<^verbatim>\<open>syscall_trace_enter\<close> logged: no sink is added for the enter direction, and the exit
  direction is registered as usual.
\<close>

theorem enter_kprobe_fallback:
  assumes loop: "unionSyscallEventFilters events (None, None, subscr)
                   = Inr (Some ef, exitFilter, subscr1)"
      and dummy: "registerDummySyscallEvent k sensor subscr1 = (sensorD, subscrD)"
  shows "\<exists>sensor' subscr'.
      registerSyscallEvents k sensor subscr events = Inr (sensor', subscr')
    \<and> kprobeAttempts (calls (Monitor sensor'))
        = kprobeAttempts (calls (Monitor sensor)) @
          (if kprobeError k syscallNewEnterKprobeAddress = None
           then [(syscallNewEnterKprobeAddress, syscallEnterKprobeFetchargs)]
           else [(syscallNewEnterKprobeAddress, syscallEnterKprobeFetchargs),
                 (syscallOldEnterKprobeAddress, syscallEnterKprobeFetchargs)])
    \<and> syscallNewEnterKprobeAddress = ''syscall_trace_enter_phase1''
    \<and> syscallOldEnterKprobeAddress = ''syscall_trace_enter''
    \<and> (\<forall>errNew errOld.
          kprobeError k syscallNewEnterKprobeAddress = Some errNew
          \<and> kprobeError k syscallOldEnterKprobeAddress = Some errOld \<longrightarrow>
          (sensor', subscr') =
            (if exitFilter \<noteq> None
             then registerSyscallExit k exitFilter
                    (sensorD\<lparr>Monitor := (Monitor sensorD)\<lparr>calls := calls (Monitor sensorD) @
                       [Call_RegisterKprobe syscallNewEnterKprobeAddress False
                          syscallEnterKprobeFetchargs Decoder_decodeSyscallTraceEnter
                          [WithEventGroup (eventGroupID subscrD)] (Inl errNew),
                        Call_RegisterKprobe syscallOldEnterKprobeAddress False
                          syscallEnterKprobeFetchargs Decoder_decodeSyscallTraceEnter
                          [WithEventGroup (eventGroupID subscrD)] (Inl errOld)]\<rparr>\<rparr>)
                    (logStatus subscrD Code_UNKNOWN
                       (''Could not register syscall enter kprobe syscall_trace_enter: '' @ errOld))
             else (sensorD\<lparr>Monitor := (Monitor sensorD)\<lparr>calls := calls (Monitor sensorD) @
                       [Call_RegisterKprobe syscallNewEnterKprobeAddress False
                          syscallEnterKprobeFetchargs Decoder_decodeSyscallTraceEnter
                          [WithEventGroup (eventGroupID subscrD)] (Inl errNew),
                        Call_RegisterKprobe syscallOldEnterKprobeAddress False
                          syscallEnterKprobeFetchargs Decoder_decodeSyscallTraceEnter
                          [WithEventGroup (eventGroupID subscrD)] (Inl errOld)]\<rparr>\<rparr>,
                   logStatus subscrD Code_UNKNOWN
                     (''Could not register syscall enter kprobe syscall_trace_enter: '' @ errOld)))
          \<and> eventSinks (logStatus subscrD Code_UNKNOWN
                 (''Could not register syscall enter kprobe syscall_trace_enter: '' @ errOld))
              = eventSinks subscr)"
proof -
  obtain sensorE subscrE where e:
    "registerSyscallEnterKprobe k (Some ef) sensorD subscrD = (sensorE, subscrE)"
    by (cases "registerSyscallEnterKprobe k (Some ef) sensorD subscrD") auto
  let ?R = "if exitFilter \<noteq> None then registerSyscallExit k exitFilter sensorE subscrE
            else (sensorE, subscrE)"
  have r: "registerSyscallEvents k sensor subscr events = Inr ?R"
    by (simp add: registerSyscallEvents_blocks [OF loop] dummy e)
  have aD: "kprobeAttempts (calls (Monitor sensorD)) = kprobeAttempts (calls (Monitor sensor))"
    using kprobeAttempts_dummy [of k sensor subscr1] dummy by simp
  have aE: "kprobeAttempts (calls (Monitor sensorE)) = kprobeAttempts (calls (Monitor sensorD)) @
       (if kprobeError k syscallNewEnterKprobeAddress = None
        then [(syscallNewEnterKprobeAddress, syscallEnterKprobeFetchargs)]
        else [(syscallNewEnterKprobeAddress, syscallEnterKprobeFetchargs),
              (syscallOldEnterKprobeAddress, syscallEnterKprobeFetchargs)])"
    using kprobeAttempts_enter [of k "Some ef" sensorD subscrD] e by simp
  have aR: "kprobeAttempts (calls (Monitor (fst ?R))) = kprobeAttempts (calls (Monitor sensorE))"
    using kprobeAttempts_exit [of k exitFilter sensorE subscrE] by simp
  have sinksD: "eventSinks subscrD = eventSinks subscr1"
    using dummy
    by (auto simp: registerDummySyscallEvent_def logStatus_def Let_def
          split: if_splits prod.splits sum.splits)
  have sinks1: "eventSinks subscr1 = eventSinks subscr"
    using union_loop_sinks [OF loop] by simp
  show ?thesis
    apply (rule exI [of _ "fst ?R"], rule exI [of _ "snd ?R"])
    apply (intro conjI allI impI)
        apply (simp add: r)
       apply (simp only: aR aE aD)
      apply (simp add: syscallNewEnterKprobeAddress_def)
     apply (simp add: syscallOldEnterKprobeAddress_def)
    using e sinksD sinks1 apply (auto simp: enter_kprobe_both_fail logStatus_def)
    done
qed

theorem enter_kprobe_fallback_witness:
  "registerSyscallEvents
      (machine 4 [] [''syscall_trace_enter_phase1'', ''syscall_trace_enter''] False)
      sensor0 subscr0
      [idFilter SYSCALL_EVENT_TYPE_ENTER 2, idFilter SYSCALL_EVENT_TYPE_EXIT 3]
   = Inr (\<lparr>Monitor =
            \<lparr>registeredEvents =
               [(1, ''raw_syscalls/sys_enter''), (2, ''raw_syscalls/sys_exit'')],
             nextID = 3,
             calls =
               [Call_RegisterTracepoint ''raw_syscalls/sys_enter'' Decoder_decodeDummySysEnter
                  [WithEventGroup 0, WithFilter ''id == 0x7fffffff''] (Inr 1),
                Call_RegisterKprobe ''syscall_trace_enter_phase1'' False
                  syscallEnterKprobeFetchargs Decoder_decodeSyscallTraceEnter
                  [WithEventGroup 7] (Inl ''ENOENT''),
                Call_RegisterKprobe ''syscall_trace_enter'' False
                  syscallEnterKprobeFetchargs Decoder_decodeSyscallTraceEnter
                  [WithEventGroup 7] (Inl ''ENOENT''),
                Call_RegisterTracepoint ''raw_syscalls/sys_exit'' Decoder_decodeSysExit
                  [WithEventGroup 7] (Inr 2)]\<rparr>,
          dummySyscallEventCount = 1, dummySyscallEventID = 1\<rparr>,
         \<lparr>eventGroupID = 7,
          eventSinks =
            [\<lparr>es_eventID = 2,
              es_filter = Equal (Identifier ''id'') (Value (Value_SignedValue 3)),
              es_filterTypes = syscallExitEventTypes, unregister = None\<rparr>],
          status =
            [(Code_UNKNOWN,
              ''Could not register syscall enter kprobe syscall_trace_enter: ENOENT'')]\<rparr>)"
proof -
  let ?k = "machine 4 [] [''syscall_trace_enter_phase1'', ''syscall_trace_enter''] False"
  have loop: "unionSyscallEventFilters
        [idFilter SYSCALL_EVENT_TYPE_ENTER 2, idFilter SYSCALL_EVENT_TYPE_EXIT 3]
        (None, None, subscr0)
      = Inr (Some (Expr_BinaryOp Expression_EQ (Identifier ''id'') (Value (Value_SignedValue 2))),
             Equal (Identifier ''id'') (Value (Value_SignedValue 3)), subscr0)"
    by (simp add: eval_defs)
  have dummy: "registerDummySyscallEvent ?k sensor0 subscr0
      = (fst (registerDummySyscallEvent ?k sensor0 subscr0),
         snd (registerDummySyscallEvent ?k sensor0 subscr0))"
    by simp
  show ?thesis
    using enter_kprobe_fallback [OF loop dummy]
    by (simp add: eval_defs)
qed

text \<open>
  C7, as amended. With the enter union present and the registration of
  \<^verbatim>\<open>raw_syscalls/sys_enter\<close> failing: below major version 3 the dummy event is retried once
  with \<^verbatim>\<open>syscalls/sys_enter\<close>, and a diagnostic (naming \<^verbatim>\<open>syscalls/sys_enter\<close>) is logged only
  when the retry fails too. From major version 3 on, the pass that finds the counter at 0 makes
  the single attempt at \<^verbatim>\<open>raw_syscalls/sys_enter\<close>, logs the diagnostic naming it and takes
  the counter back to 0, without a retry; a pass that finds the counter above 0 registers no
  dummy event at all.
\<close>

theorem dummy_event_retry_below_version_3_only:
  assumes loop: "unionSyscallEventFilters events (None, None, subscr)
                   = Inr (Some ef, exitFilter, subscr1)"
      and raw: "tracepointError k ''raw_syscalls/sys_enter'' = Some errRaw"
  shows "registerSyscallEvents k sensor subscr events =
           Inr (case registerDummySyscallEvent k sensor subscr1 of
                  (sensorD, subscrD) \<Rightarrow>
                    (case registerSyscallEnterKprobe k (Some ef) sensorD subscrD of
                       (sensorE, subscrE) \<Rightarrow>
                         if exitFilter \<noteq> None
                         then registerSyscallExit k exitFilter sensorE subscrE
                         else (sensorE, subscrE)))
    \<and> (fst (KernelVersion k) < 3 \<longrightarrow>
         registerDummySyscallEvent k sensor subscr1 =
           (case tracepointError k ''syscalls/sys_enter'' of
              None \<Rightarrow>
                (sensor\<lparr>Monitor := (Monitor sensor)
                   \<lparr>registeredEvents := registeredEvents (Monitor sensor) @
                        [(nextID (Monitor sensor), ''syscalls/sys_enter'')],
                    nextID := nextID (Monitor sensor) + 1,
                    calls := calls (Monitor sensor) @
                      [Call_RegisterTracepoint ''raw_syscalls/sys_enter''
                         Decoder_decodeDummySysEnter
                         [WithEventGroup (eventGroupID subscr1), WithFilter ''id == 0x7fffffff'']
                         (Inl errRaw),
                       Call_RegisterTracepoint ''syscalls/sys_enter''
                         Decoder_decodeDummySysEnter
                         [WithEventGroup (eventGroupID subscr1), WithFilter ''id == 0x7fffffff'']
                         (Inr (nextID (Monitor sensor)))]\<rparr>\<rparr>,
                 subscr1)
            | Some errSys \<Rightarrow>
                (sensor\<lparr>Monitor := (Monitor sensor)
                   \<lparr>calls := calls (Monitor sensor) @
                      [Call_RegisterTracepoint ''raw_syscalls/sys_enter''
                         Decoder_decodeDummySysEnter
                         [WithEventGroup (eventGroupID subscr1), WithFilter ''id == 0x7fffffff'']
                         (Inl errRaw),
                       Call_RegisterTracepoint ''syscalls/sys_enter''
                         Decoder_decodeDummySysEnter
                         [WithEventGroup (eventGroupID subscr1), WithFilter ''id == 0x7fffffff'']
                         (Inl errSys)]\<rparr>\<rparr>,
                 logStatus subscr1 Code_UNKNOWN
                   (''Could not register dummy syscall event syscalls/sys_enter: '' @ errSys))))
    \<and> (3 \<le> fst (KernelVersion k) \<and> dummySyscallEventCount sensor = 0 \<longrightarrow>
         registerDummySyscallEvent k sensor subscr1 =
           (sensor\<lparr>Monitor := (Monitor sensor)
              \<lparr>calls := calls (Monitor sensor) @
                 [Call_RegisterTracepoint ''raw_syscalls/sys_enter''
                    Decoder_decodeDummySysEnter
                    [WithEventGroup 0, WithFilter ''id == 0x7fffffff''] (Inl errRaw)]\<rparr>\<rparr>,
            logStatus subscr1 Code_UNKNOWN
              (''Could not register dummy syscall event raw_syscalls/sys_enter: '' @ errRaw)))
    \<and> (3 \<le> fst (KernelVersion k) \<and> dummySyscallEventCount sensor \<noteq> 0 \<longrightarrow>
         registerDummySyscallEvent k sensor subscr1 =
           (sensor\<lparr>dummySyscallEventCount := dummySyscallEventCount sensor + 1\<rparr>, subscr1))"
proof (intro conjI impI)
  show "registerSyscallEvents k sensor subscr events =
           Inr (case registerDummySyscallEvent k sensor subscr1 of
                  (sensorD, subscrD) \<Rightarrow>
                    (case registerSyscallEnterKprobe k (Some ef) sensorD subscrD of
                       (sensorE, subscrE) \<Rightarrow>
                         if exitFilter \<noteq> None
                         then registerSyscallExit k exitFilter sensorE subscrE
                         else (sensorE, subscrE)))"
    by (rule registerSyscallEvents_blocks [OF loop])
next
  assume "fst (KernelVersion k) < 3"
  then show "registerDummySyscallEvent k sensor subscr1 =
           (case tracepointError k ''syscalls/sys_enter'' of
              None \<Rightarrow>
                (sensor\<lparr>Monitor := (Monitor sensor)
                   \<lparr>registeredEvents := registeredEvents (Monitor sensor) @
                        [(nextID (Monitor sensor), ''syscalls/sys_enter'')],
                    nextID := nextID (Monitor sensor) + 1,
                    calls := calls (Monitor sensor) @
                      [Call_RegisterTracepoint ''raw_syscalls/sys_enter''
                         Decoder_decodeDummySysEnter
                         [WithEventGroup (eventGroupID subscr1), WithFilter ''id == 0x7fffffff'']
                         (Inl errRaw),
                       Call_RegisterTracepoint ''syscalls/sys_enter''
                         Decoder_decodeDummySysEnter
                         [WithEventGroup (eventGroupID subscr1), WithFilter ''id == 0x7fffffff'']
                         (Inr (nextID (Monitor sensor)))]\<rparr>\<rparr>,
                 subscr1)
            | Some errSys \<Rightarrow>
                (sensor\<lparr>Monitor := (Monitor sensor)
                   \<lparr>calls := calls (Monitor sensor) @
                      [Call_RegisterTracepoint ''raw_syscalls/sys_enter''
                         Decoder_decodeDummySysEnter
                         [WithEventGroup (eventGroupID subscr1), WithFilter ''id == 0x7fffffff'']
                         (Inl errRaw),
                       Call_RegisterTracepoint ''syscalls/sys_enter''
                         Decoder_decodeDummySysEnter
                         [WithEventGroup (eventGroupID subscr1), WithFilter ''id == 0x7fffffff'']
                         (Inl errSys)]\<rparr>\<rparr>,
                 logStatus subscr1 Code_UNKNOWN
                   (''Could not register dummy syscall event syscalls/sys_enter: '' @ errSys)))"
    using raw
    by (simp add: registerDummySyscallEvent_def RegisterTracepoint_def Let_def
          split: option.splits)
next
  assume "3 \<le> fst (KernelVersion k) \<and> dummySyscallEventCount sensor = 0"
  then show "registerDummySyscallEvent k sensor subscr1 =
           (sensor\<lparr>Monitor := (Monitor sensor)
              \<lparr>calls := calls (Monitor sensor) @
                 [Call_RegisterTracepoint ''raw_syscalls/sys_enter''
                    Decoder_decodeDummySysEnter
                    [WithEventGroup 0, WithFilter ''id == 0x7fffffff''] (Inl errRaw)]\<rparr>\<rparr>,
            logStatus subscr1 Code_UNKNOWN
              (''Could not register dummy syscall event raw_syscalls/sys_enter: '' @ errRaw))"
    using raw
    by (cases sensor) (simp add: registerDummySyscallEvent_def RegisterTracepoint_def Let_def)
next
  assume "3 \<le> fst (KernelVersion k) \<and> dummySyscallEventCount sensor \<noteq> 0"
  then show "registerDummySyscallEvent k sensor subscr1 =
           (sensor\<lparr>dummySyscallEventCount := dummySyscallEventCount sensor + 1\<rparr>, subscr1)"
    by (simp add: registerDummySyscallEvent_def Let_def)
qed

theorem dummy_event_retry_below_version_3_only_witness:
  "registerSyscallEvents (machine 2 [''raw_syscalls/sys_enter''] [] False) sensor0 subscr0
      [idFilter SYSCALL_EVENT_TYPE_ENTER 2]
   = Inr (\<lparr>Monitor =
            \<lparr>registeredEvents =
               [(1, ''syscalls/sys_enter''), (2, ''syscall_trace_enter_phase1'')],
             nextID = 3,
             calls =
               [Call_RegisterTracepoint ''raw_syscalls/sys_enter'' Decoder_decodeDummySysEnter
                  [WithEventGroup 7, WithFilter ''id == 0x7fffffff''] (Inl ''ENOENT''),
                Call_RegisterTracepoint ''syscalls/sys_enter'' Decoder_decodeDummySysEnter
                  [WithEventGroup 7, WithFilter ''id == 0x7fffffff''] (Inr 1),
                Call_RegisterKprobe ''syscall_trace_enter_phase1'' False
                  syscallEnterKprobeFetchargs Decoder_decodeSyscallTraceEnter
                  [WithEventGroup 7] (Inr 2)]\<rparr>,
          dummySyscallEventCount = 0, dummySyscallEventID = 0\<rparr>,
         \<lparr>eventGroupID = 7,
          eventSinks =
            [\<lparr>es_eventID = 2,
              es_filter = Equal (Identifier ''id'') (Value (Value_SignedValue 2)),
              es_filterTypes = syscallEnterEventTypes, unregister = None\<rparr>],
          status = []\<rparr>)
   \<and> registerDummySyscallEvent
        (machine 2 [''raw_syscalls/sys_enter'', ''syscalls/sys_enter''] [] False) sensor0 subscr0
     = (\<lparr>Monitor =
           \<lparr>registeredEvents = [], nextID = 1,
            calls =
              [Call_RegisterTracepoint ''raw_syscalls/sys_enter'' Decoder_decodeDummySysEnter
                 [WithEventGroup 7, WithFilter ''id == 0x7fffffff''] (Inl ''ENOENT''),
               Call_RegisterTracepoint ''syscalls/sys_enter'' Decoder_decodeDummySysEnter
                 [WithEventGroup 7, WithFilter ''id == 0x7fffffff''] (Inl ''ENOENT'')]\<rparr>,
         dummySyscallEventCount = 0, dummySyscallEventID = 0\<rparr>,
        \<lparr>eventGroupID = 7, eventSinks = [],
         status =
           [(Code_UNKNOWN,
             ''Could not register dummy syscall event syscalls/sys_enter: ENOENT'')]\<rparr>)
   \<and> registerDummySyscallEvent
        (machine 3 [''raw_syscalls/sys_enter''] [] False) sensor0 subscr0
     = (\<lparr>Monitor =
           \<lparr>registeredEvents = [], nextID = 1,
            calls =
              [Call_RegisterTracepoint ''raw_syscalls/sys_enter'' Decoder_decodeDummySysEnter
                 [WithEventGroup 0, WithFilter ''id == 0x7fffffff''] (Inl ''ENOENT'')]\<rparr>,
         dummySyscallEventCount = 0, dummySyscallEventID = 0\<rparr>,
        \<lparr>eventGroupID = 7, eventSinks = [],
         status =
           [(Code_UNKNOWN,
             ''Could not register dummy syscall event raw_syscalls/sys_enter: ENOENT'')]\<rparr>)
   \<and> registerDummySyscallEvent
        (machine 3 [''raw_syscalls/sys_enter''] [] False)
        (sensor0\<lparr>dummySyscallEventCount := 1\<rparr>) subscr0
     = (sensor0\<lparr>dummySyscallEventCount := 2\<rparr>, subscr0)"
proof -
  have loop: "unionSyscallEventFilters [idFilter SYSCALL_EVENT_TYPE_ENTER 2] (None, None, subscr0)
      = Inr (Some (Expr_BinaryOp Expression_EQ (Identifier ''id'') (Value (Value_SignedValue 2))),
             None, subscr0)"
    by (simp add: eval_defs)
  have raw: "\<And>major missing. tracepointError
        (machine major (''raw_syscalls/sys_enter'' # missing) [] False) ''raw_syscalls/sys_enter''
      = Some ''ENOENT''"
    by (simp add: machine_def)
  show ?thesis
    using
      dummy_event_retry_below_version_3_only [OF loop raw, of 2 "[]" sensor0]
      dummy_event_retry_below_version_3_only [OF loop raw, of 2 "[''syscalls/sys_enter'']" sensor0]
      dummy_event_retry_below_version_3_only [OF loop raw, of 3 "[]" sensor0]
      dummy_event_retry_below_version_3_only [OF loop raw, of 3 "[]"
        "sensor0\<lparr>dummySyscallEventCount := 1\<rparr>"]
    by (simp add: eval_defs)
qed

text \<open>
  The claim as stated, for every kernel version, fails on major version 3: with
  \<^verbatim>\<open>raw_syscalls/sys_enter\<close> missing and \<^verbatim>\<open>syscalls/sys_enter\<close> present, the only tracepoint
  registration of the call is the failed one, and the failure diagnostic is logged.
\<close>

theorem dummy_event_retry_every_version_counterexample:
  "registerSyscallEvents (machine 3 [''raw_syscalls/sys_enter''] [] False) sensor0 subscr0
      [idFilter SYSCALL_EVENT_TYPE_ENTER 2]
   = Inr (\<lparr>Monitor =
            \<lparr>registeredEvents = [(1, ''syscall_trace_enter_phase1'')],
             nextID = 2,
             calls =
               [Call_RegisterTracepoint ''raw_syscalls/sys_enter'' Decoder_decodeDummySysEnter
                  [WithEventGroup 0, WithFilter ''id == 0x7fffffff''] (Inl ''ENOENT''),
                Call_RegisterKprobe ''syscall_trace_enter_phase1'' False
                  syscallEnterKprobeFetchargs Decoder_decodeSyscallTraceEnter
                  [WithEventGroup 7] (Inr 1)]\<rparr>,
          dummySyscallEventCount = 0, dummySyscallEventID = 0\<rparr>,
         \<lparr>eventGroupID = 7,
          eventSinks =
            [\<lparr>es_eventID = 1,
              es_filter = Equal (Identifier ''id'') (Value (Value_SignedValue 2)),
              es_filterTypes = syscallEnterEventTypes,
              unregister = Some dummySyscallEventUnregister\<rparr>],
          status =
            [(Code_UNKNOWN,
              ''Could not register dummy syscall event raw_syscalls/sys_enter: ENOENT'')]\<rparr>)
   \<and> tracepointAttempts (calls (Monitor (fst (projr
        (registerSyscallEvents (machine 3 [''raw_syscalls/sys_enter''] [] False) sensor0 subscr0
           [idFilter SYSCALL_EVENT_TYPE_ENTER 2])))))
       = [''raw_syscalls/sys_enter'']
   \<and> tracepointError (machine 3 [''raw_syscalls/sys_enter''] [] False) ''syscalls/sys_enter''
       = None"
  by (simp add: eval_defs)

lemma enter_rollback:
  assumes kp: "kprobeError k syscallNewEnterKprobeAddress = None
               \<or> kprobeError k syscallOldEnterKprobeAddress = None"
      and sink: "eventSinkError k enterFilter syscallEnterEventTypes = Some err"
      and enter: "registerSyscallEnterKprobe k enterFilter sensorD subscrD = (sensorR, subscrR)"
  shows "subscrR = logStatus subscrD Code_UNKNOWN
                     (''Invalid filter expression for syscall enter filter: '' @ err)"
    and "calls (Monitor sensorR) = calls (Monitor sensorD)
           @ (case kprobeError k syscallNewEnterKprobeAddress of
                None \<Rightarrow>
                  [Call_RegisterKprobe syscallNewEnterKprobeAddress False
                     syscallEnterKprobeFetchargs Decoder_decodeSyscallTraceEnter
                     [WithEventGroup (eventGroupID subscrD)] (Inr (nextID (Monitor sensorD)))]
              | Some errNew \<Rightarrow>
                  [Call_RegisterKprobe syscallNewEnterKprobeAddress False
                     syscallEnterKprobeFetchargs Decoder_decodeSyscallTraceEnter
                     [WithEventGroup (eventGroupID subscrD)] (Inl errNew),
                   Call_RegisterKprobe syscallOldEnterKprobeAddress False
                     syscallEnterKprobeFetchargs Decoder_decodeSyscallTraceEnter
                     [WithEventGroup (eventGroupID subscrD)] (Inr (nextID (Monitor sensorD)))])
           @ [Call_UnregisterEvent (nextID (Monitor sensorD))]
           @ (if 3 \<le> fst (KernelVersion k) \<and> dummySyscallEventCount sensorD - 1 = 0
              then [Call_UnregisterEvent (dummySyscallEventID sensorD)] else [])"
    and "registeredEvents (Monitor sensorR) =
           filter (\<lambda>e. fst e \<noteq> nextID (Monitor sensorD)
                      \<and> \<not> (3 \<le> fst (KernelVersion k) \<and> dummySyscallEventCount sensorD - 1 = 0
                           \<and> fst e = dummySyscallEventID sensorD))
             (registeredEvents (Monitor sensorD))"
    and "dummySyscallEventCount sensorR =
           (if 3 \<le> fst (KernelVersion k) then dummySyscallEventCount sensorD - 1
            else dummySyscallEventCount sensorD)"
    and "dummySyscallEventID sensorR = dummySyscallEventID sensorD"
  using assms
  by (auto simp: registerSyscallEnterKprobe_def RegisterKprobe_def UnregisterEvent_def
        addEventSink_def logStatus_def Let_def split: option.splits if_splits)


lemma dummy_fresh:
  assumes "3 \<le> fst (KernelVersion k)" and "dummySyscallEventCount sensor = 0"
      and "tracepointError k ''raw_syscalls/sys_enter'' = None"
  shows "registerDummySyscallEvent k sensor subscr1 =
     (sensor\<lparr>Monitor := (Monitor sensor)
         \<lparr>registeredEvents := registeredEvents (Monitor sensor) @
              [(nextID (Monitor sensor), ''raw_syscalls/sys_enter'')],
          nextID := nextID (Monitor sensor) + 1,
          calls := calls (Monitor sensor) @
            [Call_RegisterTracepoint ''raw_syscalls/sys_enter'' Decoder_decodeDummySysEnter
               [WithEventGroup 0, WithFilter ''id == 0x7fffffff''] (Inr (nextID (Monitor sensor)))]\<rparr>,
        dummySyscallEventCount := 1,
        dummySyscallEventID := nextID (Monitor sensor)\<rparr>,
      subscr1)"
  using assms
  by (simp add: registerDummySyscallEvent_def RegisterTracepoint_def Let_def)

text \<open>
  C3. When the enter kprobe was registered (at either symbol) and the creation of the enter sink
  fails, \<open>registerSyscallEvents\<close> logs the failure, unregisters the kprobe, and from major
  version 3 on then decrements the counter of the dummy event and unregisters the dummy event
  exactly when the counter is 0 afterwards; the exit direction follows from that state. When
  the pass took the counter from 0 to 1 and registered the dummy event itself, the counter is
  back at 0 and the monitor holds the events it held before the call.
\<close>

theorem enter_sink_failure_rolls_back:
  assumes loop: "unionSyscallEventFilters events (None, None, subscr)
                   = Inr (Some ef, exitFilter, subscr1)"
      and dummy: "registerDummySyscallEvent k sensor subscr1 = (sensorD, subscrD)"
      and kp: "kprobeError k syscallNewEnterKprobeAddress = None
               \<or> kprobeError k syscallOldEnterKprobeAddress = None"
      and sink: "eventSinkError k (Some ef) syscallEnterEventTypes = Some err"
      and enter: "registerSyscallEnterKprobe k (Some ef) sensorD subscrD = (sensorR, subscrR)"
  shows "registerSyscallEvents k sensor subscr events =
           Inr (if exitFilter \<noteq> None
                then registerSyscallExit k exitFilter sensorR subscrR
                else (sensorR, subscrR))
    \<and> subscrR = logStatus subscrD Code_UNKNOWN
                   (''Invalid filter expression for syscall enter filter: '' @ err)
    \<and> calls (Monitor sensorR) = calls (Monitor sensorD)
           @ (case kprobeError k syscallNewEnterKprobeAddress of
                None \<Rightarrow>
                  [Call_RegisterKprobe syscallNewEnterKprobeAddress False
                     syscallEnterKprobeFetchargs Decoder_decodeSyscallTraceEnter
                     [WithEventGroup (eventGroupID subscrD)] (Inr (nextID (Monitor sensorD)))]
              | Some errNew \<Rightarrow>
                  [Call_RegisterKprobe syscallNewEnterKprobeAddress False
                     syscallEnterKprobeFetchargs Decoder_decodeSyscallTraceEnter
                     [WithEventGroup (eventGroupID subscrD)] (Inl errNew),
                   Call_RegisterKprobe syscallOldEnterKprobeAddress False
                     syscallEnterKprobeFetchargs Decoder_decodeSyscallTraceEnter
                     [WithEventGroup (eventGroupID subscrD)] (Inr (nextID (Monitor sensorD)))])
           @ [Call_UnregisterEvent (nextID (Monitor sensorD))]
           @ (if 3 \<le> fst (KernelVersion k) \<and> dummySyscallEventCount sensorD - 1 = 0
              then [Call_UnregisterEvent (dummySyscallEventID sensorD)] else [])
    \<and> nextID (Monitor sensorD) \<notin> fst ` set (registeredEvents (Monitor sensorR))
    \<and> (3 \<le> fst (KernelVersion k) \<longrightarrow>
          dummySyscallEventCount sensorR = dummySyscallEventCount sensorD - 1
        \<and> (dummySyscallEventCount sensorR = 0 \<longrightarrow>
              dummySyscallEventID sensorD \<notin> fst ` set (registeredEvents (Monitor sensorR)))
        \<and> (dummySyscallEventCount sensorR \<noteq> 0 \<longrightarrow>
              registeredEvents (Monitor sensorR)
                = filter (\<lambda>e. fst e \<noteq> nextID (Monitor sensorD))
                    (registeredEvents (Monitor sensorD))))
    \<and> (fst (KernelVersion k) < 3 \<longrightarrow>
          dummySyscallEventCount sensorR = dummySyscallEventCount sensorD
        \<and> registeredEvents (Monitor sensorR)
            = filter (\<lambda>e. fst e \<noteq> nextID (Monitor sensorD))
                (registeredEvents (Monitor sensorD)))
    \<and> (3 \<le> fst (KernelVersion k) \<and> dummySyscallEventCount sensor = 0
        \<and> tracepointError k ''raw_syscalls/sys_enter'' = None
        \<and> (\<forall>e \<in> set (registeredEvents (Monitor sensor)). fst e < nextID (Monitor sensor)) \<longrightarrow>
          dummySyscallEventCount sensorR = 0
        \<and> registeredEvents (Monitor sensorR) = registeredEvents (Monitor sensor))"
proof -
  note rb = enter_rollback [OF kp sink enter]
  have link: "registerSyscallEvents k sensor subscr events =
           Inr (if exitFilter \<noteq> None
                then registerSyscallExit k exitFilter sensorR subscrR
                else (sensorR, subscrR))"
    by (simp add: registerSyscallEvents_blocks [OF loop] dummy enter)
  have gone: "nextID (Monitor sensorD) \<notin> fst ` set (registeredEvents (Monitor sensorR))"
    by (auto simp: rb(3))
  have v3: "3 \<le> fst (KernelVersion k) \<longrightarrow>
          dummySyscallEventCount sensorR = dummySyscallEventCount sensorD - 1
        \<and> (dummySyscallEventCount sensorR = 0 \<longrightarrow>
              dummySyscallEventID sensorD \<notin> fst ` set (registeredEvents (Monitor sensorR)))
        \<and> (dummySyscallEventCount sensorR \<noteq> 0 \<longrightarrow>
              registeredEvents (Monitor sensorR)
                = filter (\<lambda>e. fst e \<noteq> nextID (Monitor sensorD))
                    (registeredEvents (Monitor sensorD)))"
    by (auto simp: rb(3) rb(4))
  have v2: "fst (KernelVersion k) < 3 \<longrightarrow>
          dummySyscallEventCount sensorR = dummySyscallEventCount sensorD
        \<and> registeredEvents (Monitor sensorR)
            = filter (\<lambda>e. fst e \<noteq> nextID (Monitor sensorD))
                (registeredEvents (Monitor sensorD))"
    by (auto simp: rb(3) rb(4))
  have fresh: "3 \<le> fst (KernelVersion k) \<and> dummySyscallEventCount sensor = 0
        \<and> tracepointError k ''raw_syscalls/sys_enter'' = None
        \<and> (\<forall>e \<in> set (registeredEvents (Monitor sensor)). fst e < nextID (Monitor sensor)) \<longrightarrow>
          dummySyscallEventCount sensorR = 0
        \<and> registeredEvents (Monitor sensorR) = registeredEvents (Monitor sensor)"
  proof (intro impI)
    assume a: "3 \<le> fst (KernelVersion k) \<and> dummySyscallEventCount sensor = 0
        \<and> tracepointError k ''raw_syscalls/sys_enter'' = None
        \<and> (\<forall>e \<in> set (registeredEvents (Monitor sensor)). fst e < nextID (Monitor sensor))"
    then have d: "sensorD = sensor\<lparr>Monitor := (Monitor sensor)
         \<lparr>registeredEvents := registeredEvents (Monitor sensor) @
              [(nextID (Monitor sensor), ''raw_syscalls/sys_enter'')],
          nextID := nextID (Monitor sensor) + 1,
          calls := calls (Monitor sensor) @
            [Call_RegisterTracepoint ''raw_syscalls/sys_enter'' Decoder_decodeDummySysEnter
               [WithEventGroup 0, WithFilter ''id == 0x7fffffff''] (Inr (nextID (Monitor sensor)))]\<rparr>,
        dummySyscallEventCount := 1,
        dummySyscallEventID := nextID (Monitor sensor)\<rparr>"
      using dummy dummy_fresh [of k sensor subscr1] by simp
    have "filter (\<lambda>e. fst e \<noteq> Suc (nextID (Monitor sensor)) \<and> fst e \<noteq> nextID (Monitor sensor))
            (registeredEvents (Monitor sensor)) = registeredEvents (Monitor sensor)"
      using a by (auto simp: filter_id_conv)
    then show "dummySyscallEventCount sensorR = 0
        \<and> registeredEvents (Monitor sensorR) = registeredEvents (Monitor sensor)"
      using a by (simp add: rb(3) rb(4) d)
  qed
  show ?thesis
    using link rb(1) rb(2) gone v3 v2 fresh by blast
qed

theorem enter_sink_failure_rolls_back_witness:
  "registerSyscallEvents (machine 3 [] [] True) sensorBusy subscr0
      [idFilter SYSCALL_EVENT_TYPE_ENTER 2]
   = Inr (\<lparr>Monitor =
            \<lparr>registeredEvents = [(1, ''sched/sched_process_fork'')],
             nextID = 4,
             calls =
               [Call_RegisterTracepoint ''raw_syscalls/sys_enter'' Decoder_decodeDummySysEnter
                  [WithEventGroup 0, WithFilter ''id == 0x7fffffff''] (Inr 2),
                Call_RegisterKprobe ''syscall_trace_enter_phase1'' False
                  syscallEnterKprobeFetchargs Decoder_decodeSyscallTraceEnter
                  [WithEventGroup 7] (Inr 3),
                Call_UnregisterEvent 3,
                Call_UnregisterEvent 2]\<rparr>,
          dummySyscallEventCount = 0, dummySyscallEventID = 2\<rparr>,
         \<lparr>eventGroupID = 7,
          eventSinks = [],
          status =
            [(Code_UNKNOWN,
              ''Invalid filter expression for syscall enter filter: EINVAL'')]\<rparr>)"
proof -
  let ?k = "machine 3 [] [] True"
  let ?ef = "Expr_BinaryOp Expression_EQ (Identifier ''id'') (Value (Value_SignedValue 2))"
  have loop: "unionSyscallEventFilters [idFilter SYSCALL_EVENT_TYPE_ENTER 2] (None, None, subscr0)
      = Inr (Some ?ef, None, subscr0)"
    by (simp add: eval_defs sensorBusy_def)
  have dummy: "registerDummySyscallEvent ?k sensorBusy subscr0
      = (fst (registerDummySyscallEvent ?k sensorBusy subscr0),
         snd (registerDummySyscallEvent ?k sensorBusy subscr0))"
    by simp
  have kp: "kprobeError ?k syscallNewEnterKprobeAddress = None
               \<or> kprobeError ?k syscallOldEnterKprobeAddress = None"
    by (simp add: machine_def)
  have sink: "eventSinkError ?k (Some ?ef) syscallEnterEventTypes = Some ''EINVAL''"
    by (simp add: machine_def)
  have enter: "registerSyscallEnterKprobe ?k (Some ?ef)
        (fst (registerDummySyscallEvent ?k sensorBusy subscr0))
        (snd (registerDummySyscallEvent ?k sensorBusy subscr0))
      = (fst (registerSyscallEnterKprobe ?k (Some ?ef)
                (fst (registerDummySyscallEvent ?k sensorBusy subscr0))
                (snd (registerDummySyscallEvent ?k sensorBusy subscr0))),
         snd (registerSyscallEnterKprobe ?k (Some ?ef)
                (fst (registerDummySyscallEvent ?k sensorBusy subscr0))
                (snd (registerDummySyscallEvent ?k sensorBusy subscr0))))"
    by simp
  show ?thesis
    using enter_sink_failure_rolls_back [OF loop dummy kp sink enter]
    by (simp add: eval_defs sensorBusy_def)
qed

subsection \<open>The counter of the dummy event\<close>

text \<open>
  C1. The counter of the shared dummy event can become negative. On major version 3, with the
  counter at 0, the registration of the dummy event failing, the kprobe registering and the
  creation of the sink failing, the pass decrements the counter twice after incrementing it
  once: it ends at -1, with no dummy event registered. The same happens when the sink is
  created and its teardown hook runs later.
\<close>

theorem sentinel_count_negative_after_failed_registration:
  "registerSyscallEvents (machine 3 [''raw_syscalls/sys_enter''] [] True) sensor0 subscr0
      [idFilter SYSCALL_EVENT_TYPE_ENTER 2]
   = Inr (\<lparr>Monitor =
            \<lparr>registeredEvents = [],
             nextID = 2,
             calls =
               [Call_RegisterTracepoint ''raw_syscalls/sys_enter'' Decoder_decodeDummySysEnter
                  [WithEventGroup 0, WithFilter ''id == 0x7fffffff''] (Inl ''ENOENT''),
                Call_RegisterKprobe ''syscall_trace_enter_phase1'' False
                  syscallEnterKprobeFetchargs Decoder_decodeSyscallTraceEnter
                  [WithEventGroup 7] (Inr 1),
                Call_UnregisterEvent 1]\<rparr>,
          dummySyscallEventCount = - 1, dummySyscallEventID = 0\<rparr>,
         \<lparr>eventGroupID = 7,
          eventSinks = [],
          status =
            [(Code_UNKNOWN,
              ''Could not register dummy syscall event raw_syscalls/sys_enter: ENOENT''),
             (Code_UNKNOWN,
              ''Invalid filter expression for syscall enter filter: EINVAL'')]\<rparr>)
   \<and> sint (dummySyscallEventCount (fst (projr
        (registerSyscallEvents (machine 3 [''raw_syscalls/sys_enter''] [] True) sensor0 subscr0
           [idFilter SYSCALL_EVENT_TYPE_ENTER 2])))) = - 1
   \<and> sint (dummySyscallEventCount (dummySyscallEventUnregister (fst (projr
        (registerSyscallEvents (machine 3 [''raw_syscalls/sys_enter''] [] False) sensor0 subscr0
           [idFilter SYSCALL_EVENT_TYPE_ENTER 2]))))) = - 1"
  by (simp add: eval_defs dummySyscallEventUnregister_def)

text \<open>
  Without a failure the counter does what it is meant to do: the first subscription registers
  the dummy event and sets the counter to 1, a second one takes it to 2 and registers no
  tracepoint, and the two teardown hooks take it back to 0 and unregister the dummy event once.
\<close>

lemma sentinel_shared_by_two_subscriptions:
  "dummySyscallEventUnregister (dummySyscallEventUnregister (fst (projr
     (registerSyscallEvents (machine 3 [] [] False)
        (fst (projr (registerSyscallEvents (machine 3 [] [] False) sensor0 subscr0
                       [idFilter SYSCALL_EVENT_TYPE_ENTER 2])))
        subscr0 [idFilter SYSCALL_EVENT_TYPE_ENTER 3]))))
   = \<lparr>Monitor =
        \<lparr>registeredEvents =
           [(2, ''syscall_trace_enter_phase1''), (3, ''syscall_trace_enter_phase1'')],
         nextID = 4,
         calls =
           [Call_RegisterTracepoint ''raw_syscalls/sys_enter'' Decoder_decodeDummySysEnter
              [WithEventGroup 0, WithFilter ''id == 0x7fffffff''] (Inr 1),
            Call_RegisterKprobe ''syscall_trace_enter_phase1'' False
              syscallEnterKprobeFetchargs Decoder_decodeSyscallTraceEnter
              [WithEventGroup 7] (Inr 2),
            Call_RegisterKprobe ''syscall_trace_enter_phase1'' False
              syscallEnterKprobeFetchargs Decoder_decodeSyscallTraceEnter
              [WithEventGroup 7] (Inr 3),
            Call_UnregisterEvent 1]\<rparr>,
      dummySyscallEventCount = 0, dummySyscallEventID = 1\<rparr>"
  by (simp add: eval_defs dummySyscallEventUnregister_def)

end
